theory Spec2Isabelle
  imports Main "HOL-Library.AList"
begin

section \<open>Python strings: \<open>str.split(",")\<close> and \<open>str.strip()\<close>\<close>

text \<open>
  A Python \<open>str\<close> is modelled as a \<open>string\<close> whose characters are code points below 256.
  \<open>py_isspace\<close> is Python's notion of whitespace on that range, the characters that
  \<open>str.strip()\<close> removes: TAB, LF, VT, FF, CR, the separators FS, GS, RS, US, the space,
  NEL (0x85) and the no-break space (0xA0).
\<close>

definition py_isspace :: "char \<Rightarrow> bool" where
  "py_isspace c =
     (let n = (of_char c :: nat)
      in (9 \<le> n \<and> n \<le> 13) \<or> (28 \<le> n \<and> n \<le> 32) \<or> n = 133 \<or> n = 160)"

text \<open>\<open>t.strip()\<close>: drop the leading and the trailing whitespace.\<close>

definition strip :: "string \<Rightarrow> string" where
  "strip s = rev (dropWhile py_isspace (rev (dropWhile py_isspace s)))"

text \<open>
  \<open>s.split(",")\<close>: the pieces between the commas, in order; the empty string gives one
  empty piece, as in Python.
\<close>

fun split_comma :: "string \<Rightarrow> string list" where
  "split_comma [] = [[]]"
| "split_comma (c # cs) =
     (if c = CHR '','' then [] # split_comma cs
      else (case split_comma cs of
              [] \<Rightarrow> [[c]]
            | p # ps \<Rightarrow> (c # p) # ps))"

text \<open>\<open>",".join(pieces)\<close>, used to state that \<open>split_comma\<close> loses nothing.\<close>

fun join_comma :: "string list \<Rightarrow> string" where
  "join_comma [] = []"
| "join_comma [p] = p"
| "join_comma (p # q # ps) = p @ CHR '','' # join_comma (q # ps)"

text \<open>
  The parsing of the \<open>memory_types\<close> and \<open>tags\<close> inputs, the same three lines in
  \<open>ElizaMemorySearchComponent.search_memories\<close> (twice) and in
  \<open>ElizaMemoryStoreComponent.store_memory\<close>:
  \<^verbatim>\<open>
    tags = []
    if self.tags:
        tags = [t.strip() for t in self.tags.split(",") if t.strip()]
  \<close>
  The input is \<open>None\<close> when absent.
\<close>

definition parse_list :: "string option \<Rightarrow> string list" where
  "parse_list inp =
     (case inp of
        None \<Rightarrow> []
      | Some s \<Rightarrow>
          if s = [] then []
          else map strip (filter (\<lambda>t. strip t \<noteq> []) (split_comma s)))"

text \<open>
  The parsing as the specification words it: split on commas, strip every piece, drop the
  pieces that are empty after stripping.
\<close>

definition parse_list_spec :: "string \<Rightarrow> string list" where
  "parse_list_spec s = filter (\<lambda>t. t \<noteq> []) (map strip (split_comma s))"

section \<open>Python values, exceptions and the host's envelopes\<close>

text \<open>
  An exception is an instance of \<open>Exception\<close>, known by the text \<open>str(e)\<close> that the
  adapters write into their status. Conditions that are not an \<open>Exception\<close>
  (\<open>KeyboardInterrupt\<close>, \<open>SystemExit\<close>) are outside the model.
\<close>

datatype pyexc = PyExc string

fun exc_text :: "pyexc \<Rightarrow> string" where
  "exc_text (PyExc t) = t"

text \<open>
  The values that travel through the adapters: \<open>None\<close>, strings, lists, dicts with string
  keys (in insertion order), and everything else (numbers, timestamps, objects of the
  external library) as an opaque value of type \<open>'o\<close>.
\<close>

datatype 'o pyval =
    PNone
  | PStr string
  | PList "'o pyval list"
  | PDict "(string \<times> 'o pyval) list"
  | POpaque 'o

type_synonym 'o pydict = "(string \<times> 'o pyval) list"

text \<open>\<open>d.get(k, default)\<close>, \<open>d[k] = v\<close> and \<open>d.update(e)\<close>.\<close>

definition dict_get :: "'o pydict \<Rightarrow> string \<Rightarrow> 'o pyval \<Rightarrow> 'o pyval" where
  "dict_get d k dflt = (case map_of d k of None \<Rightarrow> dflt | Some v \<Rightarrow> v)"

definition dict_set :: "'o pydict \<Rightarrow> string \<Rightarrow> 'o pyval \<Rightarrow> 'o pydict" where
  "dict_set d k v = AList.update k v d"

definition dict_update :: "'o pydict \<Rightarrow> 'o pydict \<Rightarrow> 'o pydict" where
  "dict_update d e = fold (\<lambda>(k, v) acc. dict_set acc k v) e d"

text \<open>
  The host framework's envelopes. \<open>Data(data=d)\<close> wraps a dict, \<open>Message(text=t)\<close> a
  text, kept as the value the adapter passes. An envelope is an object without a length,
  so it is true in \<open>x or y\<close>.
\<close>

datatype 'o Data = Data "'o pydict"

datatype 'o Message = Message "'o pyval"

fun data_of :: "'o Data \<Rightarrow> 'o pydict" where
  "data_of (Data d) = d"

text \<open>
  What the Python runtime and the host do with a value the adapters know nothing about is
  a parameter of the model: truth value, \<open>str(x)\<close>, \<open>x.upper()\<close> and
  \<open>format(x, ".2f")\<close> of an opaque value, \<open>str(x)\<close> of a list or a dict,
  \<open>s.upper()\<close> of a string (Unicode case mapping), and the exception that the host's
  \<open>Data(data=x)\<close> raises when \<open>x\<close> is not a dict.
\<close>

record 'o runtime =
  opaque_truthy :: "'o \<Rightarrow> bool"
  opaque_str :: "'o \<Rightarrow> pyexc + string"
  opaque_upper :: "'o \<Rightarrow> pyexc + 'o pyval"
  opaque_format_2f :: "'o \<Rightarrow> pyexc + string"
  container_str :: "'o pyval \<Rightarrow> pyexc + string"
  str_upper :: "string \<Rightarrow> string"
  data_invalid :: pyexc

definition no_attribute :: "string \<Rightarrow> string \<Rightarrow> pyexc" where
  "no_attribute type_name attr =
     PyExc ([CHR 0x27] @ type_name @ [CHR 0x27] @ '' object has no attribute ''
            @ [CHR 0x27] @ attr @ [CHR 0x27])"

text \<open>\<open>bool(x)\<close>, as in \<open>if x:\<close> and \<open>x or y\<close>.\<close>

fun py_truthy :: "'o runtime \<Rightarrow> 'o pyval \<Rightarrow> bool" where
  "py_truthy rt PNone = False"
| "py_truthy rt (PStr s) = (s \<noteq> [])"
| "py_truthy rt (PList xs) = (xs \<noteq> [])"
| "py_truthy rt (PDict d) = (d \<noteq> [])"
| "py_truthy rt (POpaque x) = opaque_truthy rt x"

text \<open>\<open>str(x)\<close>, also the rendering of \<open>{x}\<close> in an f-string.\<close>

fun py_str :: "'o runtime \<Rightarrow> 'o pyval \<Rightarrow> pyexc + string" where
  "py_str rt PNone = Inr ''None''"
| "py_str rt (PStr s) = Inr s"
| "py_str rt (PList xs) = container_str rt (PList xs)"
| "py_str rt (PDict d) = container_str rt (PDict d)"
| "py_str rt (POpaque x) = opaque_str rt x"

text \<open>\<open>x.upper()\<close>: a method of strings; \<open>None\<close>, lists and dicts have no such attribute.\<close>

fun py_upper :: "'o runtime \<Rightarrow> 'o pyval \<Rightarrow> pyexc + 'o pyval" where
  "py_upper rt PNone = Inl (no_attribute ''NoneType'' ''upper'')"
| "py_upper rt (PStr s) = Inr (PStr (str_upper rt s))"
| "py_upper rt (PList xs) = Inl (no_attribute ''list'' ''upper'')"
| "py_upper rt (PDict d) = Inl (no_attribute ''dict'' ''upper'')"
| "py_upper rt (POpaque x) = opaque_upper rt x"

text \<open>The rendering of \<open>{x:.2f}\<close> in an f-string.\<close>

definition unsupported_format :: "string \<Rightarrow> pyexc" where
  "unsupported_format type_name =
     PyExc (''unsupported format string passed to '' @ type_name @ ''.__format__'')"

fun py_format_2f :: "'o runtime \<Rightarrow> 'o pyval \<Rightarrow> pyexc + string" where
  "py_format_2f rt PNone = Inl (unsupported_format ''NoneType'')"
| "py_format_2f rt (PStr s) =
     Inl (PyExc (''Unknown format code '' @ [CHR 0x27] @ ''f'' @ [CHR 0x27]
                 @ '' for object of type '' @ [CHR 0x27] @ ''str'' @ [CHR 0x27]))"
| "py_format_2f rt (PList xs) = Inl (unsupported_format ''list'')"
| "py_format_2f rt (PDict d) = Inl (unsupported_format ''dict'')"
| "py_format_2f rt (POpaque x) = opaque_format_2f rt x"

text \<open>\<open>str(n)\<close> for a length: the decimal digits of a natural number.\<close>

definition digit_char :: "nat \<Rightarrow> char" where
  "digit_char d = char_of (of_char (CHR ''0'') + d)"

fun str_of_nat :: "nat \<Rightarrow> string" where
  "str_of_nat n = (if n < 10 then [digit_char n] else str_of_nat (n div 10) @ [digit_char (n mod 10)])"

declare str_of_nat.simps [simp del]

section \<open>Computations that may raise\<close>

text \<open>
  A method body is a function from the state (the component, and the world outside it) to
  an outcome and the state it leaves: \<open>Inl e\<close> when the exception \<open>e\<close> propagates,
  \<open>Inr x\<close> when \<open>x\<close> is returned. The state written before an exception stays written.
\<close>

type_synonym ('a, 'st) py = "'st \<Rightarrow> (pyexc + 'a) \<times> 'st"

definition py_return :: "'a \<Rightarrow> ('a, 'st) py" where
  "py_return x = (\<lambda>s. (Inr x, s))"

definition py_raise :: "pyexc \<Rightarrow> ('a, 'st) py" where
  "py_raise e = (\<lambda>s. (Inl e, s))"

definition py_bind :: "('a, 'st) py \<Rightarrow> ('a \<Rightarrow> ('b, 'st) py) \<Rightarrow> ('b, 'st) py" where
  "py_bind m f = (\<lambda>s. case m s of (Inl e, s') \<Rightarrow> (Inl e, s') | (Inr x, s') \<Rightarrow> f x s')"

definition py_then :: "(unit, 'st) py \<Rightarrow> ('b, 'st) py \<Rightarrow> ('b, 'st) py" where
  "py_then m k = py_bind m (\<lambda>_. k)"

text \<open>A pure step that may raise, such as \<open>str(x)\<close>.\<close>

definition py_lift :: "pyexc + 'a \<Rightarrow> ('a, 'st) py" where
  "py_lift r = (\<lambda>s. (r, s))"

text \<open>\<open>try: body except Exception as e: handler(e)\<close>.\<close>

definition try_except :: "('a, 'st) py \<Rightarrow> (pyexc \<Rightarrow> ('a, 'st) py) \<Rightarrow> ('a, 'st) py" where
  "try_except body handler =
     (\<lambda>s. case body s of (Inl e, s') \<Rightarrow> handler e s' | (Inr x, s') \<Rightarrow> (Inr x, s'))"

text \<open>\<open>for x in xs: body(x)\<close> over the items of a list.\<close>

fun for_list :: "'a list \<Rightarrow> ('a \<Rightarrow> (unit, 'st) py) \<Rightarrow> (unit, 'st) py" where
  "for_list [] body = py_return ()"
| "for_list (x # xs) body = py_then (body x) (for_list xs body)"

text \<open>
  What an external call returns to be iterated: the items it yields and, when the
  iteration fails (or the value is not iterable at all), the exception that ends it.
  The iteration is finite.
\<close>

datatype 'a pyiter = PyIter "'a list" "pyexc option"

fun for_each :: "'a pyiter \<Rightarrow> ('a \<Rightarrow> (unit, 'st) py) \<Rightarrow> (unit, 'st) py" where
  "for_each (PyIter xs failure) body =
     py_then (for_list xs body)
       (case failure of None \<Rightarrow> py_return () | Some e \<Rightarrow> py_raise e)"

section \<open>The external memory engine\<close>

text \<open>
  A memory record as a search returns it: a dict, or another object, known by the name of
  its type and by its \<open>to_dict\<close> attribute (absent, or a method that raises or returns a
  dict). An object that is not a dict takes no item assignment and is no payload for
  \<open>Data\<close>.
\<close>

datatype 'o memory =
    MemDict "'o pydict"
  | MemObject string "(pyexc + 'o pydict) option"

text \<open>
  What the engine's \<open>store_memory\<close> returns: a plain value (an id, or \<open>None\<close>), or a
  record object with a \<open>to_dict\<close> method and possibly an \<open>id\<close> attribute.
\<close>

datatype 'o stored =
    StoredValue "'o pyval"
  | StoredObject string "pyexc + 'o pydict" "'o pyval option"

text \<open>An external call: it reads and changes the engine's state \<open>'s\<close>, and may raise.\<close>

type_synonym ('a, 's) ext = "'s \<Rightarrow> (pyexc + 'a) \<times> 's"

text \<open>
  The memory instance, an object of the external library: its type's name, its truth
  value, and each attribute the adapters look for, \<open>None\<close> when the object has no such
  attribute. The adapters hold it by reference; the state it manages is the \<open>'s\<close> of the
  world.
\<close>

record ('s, 'o) ElizaLongTermMemory =
  type_name :: string
  is_truthy :: bool
  mem_save_context :: "('o pydict \<Rightarrow> 'o pydict \<Rightarrow> (unit, 's) ext) option"
  mem_load_memory_variables :: "('o pydict \<Rightarrow> ('o pydict, 's) ext) option"
  mem_memory_key :: "string option"
  mem_get_timestamp :: "(('o pyval, 's) ext) option"
  mem_search_memories :: "(string \<Rightarrow> string list option \<Rightarrow> int \<Rightarrow> ('o memory pyiter, 's) ext) option"
  mem_search_memories_semantic ::
    "(string \<Rightarrow> int \<Rightarrow> string list \<Rightarrow> (('o memory \<times> 'o pyval) pyiter, 's) ext) option"
  mem_get_memory_analytics :: "(('o pydict, 's) ext) option"
  mem_add_memory :: "(string \<Rightarrow> string \<Rightarrow> 'o pyval \<Rightarrow> string list \<Rightarrow> ('o pyval, 's) ext) option"
  mem_memory_store :: "('s \<Rightarrow> pyexc + 'o pydict list) option"
  mem_store_memory ::
    "(string \<Rightarrow> string \<Rightarrow> string \<Rightarrow> string \<Rightarrow> 'o pyval \<Rightarrow> string list \<Rightarrow> 'o pyval
        \<Rightarrow> ('o stored, 's) ext) option"

text \<open>
  Every use the adapters make of the outside is written to a trace: a \<open>hasattr\<close> probe
  of the memory instance, the read of one of its attributes, the call of one of its
  methods with its positional and keyword arguments, and the call of a function of the
  external library.
\<close>

datatype 'o pyarg =
    AStr string
  | AInt int
  | ABool bool
  | AStrList "string list"
  | AVal "'o pyval"

datatype 'o event =
    HasAttr string
  | GetAttr string
  | Call string "'o pyarg list" "(string \<times> 'o pyarg) list"
  | FunCall string "'o pyarg list" "(string \<times> 'o pyarg) list"

record ('s, 'o) world =
  engine_state :: 's
  trace :: "'o event list"

text \<open>The attribute of the memory instance that an event touches, if it touches one.\<close>

fun event_member :: "'o event \<Rightarrow> string option" where
  "event_member (HasAttr n) = Some n"
| "event_member (GetAttr n) = Some n"
| "event_member (Call n args kwargs) = Some n"
| "event_member (FunCall n args kwargs) = None"

fun is_call :: "'o event \<Rightarrow> bool" where
  "is_call (HasAttr n) = False"
| "is_call (GetAttr n) = False"
| "is_call (Call n args kwargs) = True"
| "is_call (FunCall n args kwargs) = True"

definition get_self :: "('c, 'c \<times> 'w) py" where
  "get_self = (\<lambda>(c, w). (Inr c, (c, w)))"

definition modify_self :: "('c \<Rightarrow> 'c) \<Rightarrow> (unit, 'c \<times> 'w) py" where
  "modify_self f = (\<lambda>(c, w). (Inr (), (f c, w)))"

definition log_event :: "'o event \<Rightarrow> (unit, 'c \<times> ('s, 'o) world) py" where
  "log_event ev = (\<lambda>(c, w). (Inr (), (c, w\<lparr>trace := trace w @ [ev]\<rparr>)))"

definition ext_call :: "('a, 's) ext \<Rightarrow> ('a, 'c \<times> ('s, 'o) world) py" where
  "ext_call f = (\<lambda>(c, w). case f (engine_state w) of (r, s') \<Rightarrow> (r, (c, w\<lparr>engine_state := s'\<rparr>)))"

text \<open>The read of a value that the engine keeps in its state.\<close>

definition ext_read :: "('s \<Rightarrow> pyexc + 'a) \<Rightarrow> ('a, 'c \<times> ('s, 'o) world) py" where
  "ext_read f = (\<lambda>(c, w). (f (engine_state w), (c, w)))"

text \<open>\<open>hasattr(instance, name)\<close>.\<close>

definition hasattr :: "string \<Rightarrow> 'a option \<Rightarrow> (bool, 'c \<times> ('s, 'o) world) py" where
  "hasattr name attr = py_then (log_event (HasAttr name)) (py_return (attr \<noteq> None))"

text \<open>\<open>instance.name\<close>: an \<open>AttributeError\<close> when the object has no such attribute.\<close>

definition getattr :: "string \<Rightarrow> string \<Rightarrow> 'a option \<Rightarrow> ('a, 'c \<times> ('s, 'o) world) py" where
  "getattr tn name attr =
     py_then (log_event (GetAttr name))
       (case attr of None \<Rightarrow> py_raise (no_attribute tn name) | Some a \<Rightarrow> py_return a)"

text \<open>
  \<open>instance.name(args, kwargs)\<close>: the attribute is read, then called; \<open>meth\<close> is the
  method already given its arguments.
\<close>

definition invoke ::
  "string \<Rightarrow> string \<Rightarrow> 'o pyarg list \<Rightarrow> (string \<times> 'o pyarg) list \<Rightarrow> (('a, 's) ext) option
     \<Rightarrow> ('a, 'c \<times> ('s, 'o) world) py" where
  "invoke tn name args kwargs meth =
     py_bind (getattr tn name meth)
       (\<lambda>f. py_then (log_event (Call name args kwargs)) (ext_call f))"

text \<open>The truth value of an input that holds a memory instance or \<open>None\<close>.\<close>

definition instance_truthy :: "('s, 'o) ElizaLongTermMemory option \<Rightarrow> bool" where
  "instance_truthy inst = (case inst of None \<Rightarrow> False | Some m \<Rightarrow> is_truthy m)"

text \<open>The truth value of a text input: \<open>None\<close> and the empty string are false.\<close>

definition text_truthy :: "string option \<Rightarrow> bool" where
  "text_truthy t = (case t of None \<Rightarrow> False | Some s \<Rightarrow> s \<noteq> [])"

text \<open>
  The conversion of a memory record into the payload of a \<open>Data\<close>, step by step:
  \<^verbatim>\<open>
    memory_data = memory.copy() if isinstance(memory, dict) else memory
    if hasattr(memory_data, 'to_dict'):
        memory_data = memory_data.to_dict()
    memory_data['similarity_score'] = similarity      # semantic branch only
    ... Data(data=memory_data)
  \<close>
\<close>

fun apply_to_dict :: "'o memory \<Rightarrow> pyexc + 'o memory" where
  "apply_to_dict (MemDict d) = Inr (MemDict d)"
| "apply_to_dict (MemObject tn None) = Inr (MemObject tn None)"
| "apply_to_dict (MemObject tn (Some (Inl e))) = Inl e"
| "apply_to_dict (MemObject tn (Some (Inr d))) = Inr (MemDict d)"

fun set_item :: "'o memory \<Rightarrow> string \<Rightarrow> 'o pyval \<Rightarrow> pyexc + 'o memory" where
  "set_item (MemDict d) k v = Inr (MemDict (dict_set d k v))"
| "set_item (MemObject tn td) k v =
     Inl (PyExc ([CHR 0x27] @ tn @ [CHR 0x27] @ '' object does not support item assignment''))"

fun make_Data :: "'o runtime \<Rightarrow> 'o memory \<Rightarrow> pyexc + 'o Data" where
  "make_Data rt (MemDict d) = Inr (Data d)"
| "make_Data rt (MemObject tn td) = Inl (data_invalid rt)"

section \<open>ElizaMemorySearchComponent\<close>

text \<open>
  The inputs of the node, the \<open>status\<close> sink of the host, and the two attributes the
  component caches, \<open>_search_results\<close> and \<open>_analytics\<close> (\<open>priv_\<close> stands for the
  leading underscore).
\<close>

record ('s, 'o) search_component =
  search_query :: "string option"
  user_id :: string
  memory_types :: "string option"
  tags :: "string option"
  limit :: int
  semantic_search :: bool
  include_analytics :: bool
  memory_instance :: "('s, 'o) ElizaLongTermMemory option"
  status :: string
  priv_search_results :: "'o Data list"
  priv_analytics :: "'o pydict"

type_synonym ('s, 'o) search_state = "('s, 'o) search_component \<times> ('s, 'o) world"

text \<open>The body of the two loops that fill \<open>_search_results\<close>.\<close>

definition convert_semantic ::
  "'o runtime \<Rightarrow> 'o memory \<times> 'o pyval \<Rightarrow> (unit, ('s, 'o) search_state) py" where
  "convert_semantic rt = (\<lambda>(memory, similarity).
     py_bind (py_lift (apply_to_dict memory)) (\<lambda>memory_data.
     py_bind (py_lift (set_item memory_data ''similarity_score'' similarity)) (\<lambda>memory_data.
     py_bind (py_lift (make_Data rt memory_data)) (\<lambda>d.
     modify_self (\<lambda>c. c\<lparr>priv_search_results := priv_search_results c @ [d]\<rparr>)))))"

definition convert_keyword ::
  "'o runtime \<Rightarrow> 'o memory \<Rightarrow> (unit, ('s, 'o) search_state) py" where
  "convert_keyword rt = (\<lambda>memory.
     py_bind (py_lift (apply_to_dict memory)) (\<lambda>memory_data.
     py_bind (py_lift (make_Data rt memory_data)) (\<lambda>d.
     modify_self (\<lambda>c. c\<lparr>priv_search_results := priv_search_results c @ [d]\<rparr>))))"

text \<open>The semantic branch, lines 136 to 149 of the source.\<close>

definition semantic_branch ::
  "'o runtime \<Rightarrow> ('s, 'o) ElizaLongTermMemory \<Rightarrow> string \<Rightarrow> string list
     \<Rightarrow> (unit, ('s, 'o) search_state) py" where
  "semantic_branch rt m q mts =
     py_bind get_self (\<lambda>c.
     py_bind (invoke (type_name m) ''search_memories_semantic''
                [AStr q] [(''limit'', AInt (limit c)), (''memory_types'', AStrList mts)]
                (map_option (\<lambda>f. f q (limit c) mts) (mem_search_memories_semantic m))) (\<lambda>results.
     py_then (modify_self (\<lambda>c. c\<lparr>priv_search_results := []\<rparr>))
       (for_each results (convert_semantic rt))))"

text \<open>The keyword branch, lines 153 to 165.\<close>

definition keyword_branch ::
  "'o runtime \<Rightarrow> ('s, 'o) ElizaLongTermMemory \<Rightarrow> string \<Rightarrow> string list
     \<Rightarrow> (unit, ('s, 'o) search_state) py" where
  "keyword_branch rt m q mts =
     py_bind get_self (\<lambda>c.
     py_bind (invoke (type_name m) ''search_memories''
                [AStr q] [(''memory_types'', AStrList mts), (''limit'', AInt (limit c))]
                (map_option (\<lambda>f. f q (Some mts) (limit c)) (mem_search_memories m))) (\<lambda>results.
     py_then (modify_self (\<lambda>c. c\<lparr>priv_search_results := []\<rparr>))
       (for_each results (convert_keyword rt))))"

text \<open>
  Lines 168 and 169: the analytics, when they are asked for and the instance has the
  method. \<open>and\<close> is short-circuit: the instance is probed only when the boolean input
  is true.
\<close>

definition analytics_step ::
  "('s, 'o) ElizaLongTermMemory \<Rightarrow> (unit, ('s, 'o) search_state) py" where
  "analytics_step m =
     py_bind get_self (\<lambda>c.
     py_bind (if include_analytics c
              then hasattr ''get_memory_analytics'' (mem_get_memory_analytics m)
              else py_return False) (\<lambda>wanted.
       if wanted
       then py_bind (invoke (type_name m) ''get_memory_analytics'' [] [] (mem_get_memory_analytics m))
              (\<lambda>a. modify_self (\<lambda>c. c\<lparr>priv_analytics := a\<rparr>))
       else py_return ()))"

text \<open>Lines 171 and 172: the status and the value returned.\<close>

definition search_done :: "('o Data list, ('s, 'o) search_state) py" where
  "search_done =
     py_then
       (modify_self (\<lambda>c. c\<lparr>search_component.status :=
          ''Found '' @ str_of_nat (length (priv_search_results c)) @ '' memories''\<rparr>))
       (py_bind get_self (\<lambda>c. py_return (priv_search_results c)))"

text \<open>
  The body of the \<open>try\<close> of \<open>search_memories\<close>, lines 124 to 172, for the memory instance
  \<open>m\<close> and the query \<open>q\<close> that passed the two guards. The parsed tags are not used.
\<close>

definition search_try ::
  "'o runtime \<Rightarrow> ('s, 'o) ElizaLongTermMemory \<Rightarrow> string
     \<Rightarrow> ('o Data list, ('s, 'o) search_state) py" where
  "search_try rt m q =
     py_bind get_self (\<lambda>c.
     let mts = parse_list (memory_types c);
         tgs = parse_list (search_component.tags c)
     in
     py_then
       (py_bind (if semantic_search c
                 then hasattr ''search_memories_semantic'' (mem_search_memories_semantic m)
                 else py_return False) (\<lambda>semantic.
          if semantic then semantic_branch rt m q mts else keyword_branch rt m q mts))
       (py_then (analytics_step m) search_done))"

definition search_fail :: "string \<Rightarrow> ('o Data list, ('s, 'o) search_state) py" where
  "search_fail msg =
     py_then (modify_self (\<lambda>c. c\<lparr>search_component.status := msg\<rparr>)) (py_return [])"

text \<open>\<open>search_memories\<close>, lines 113 to 176.\<close>

definition search_memories :: "'o runtime \<Rightarrow> ('o Data list, ('s, 'o) search_state) py" where
  "search_memories rt =
     py_bind get_self (\<lambda>c.
       case search_component.memory_instance c of
         None \<Rightarrow> search_fail ''No memory instance provided''
       | Some m \<Rightarrow>
           if \<not> is_truthy m then search_fail ''No memory instance provided''
           else (case search_query c of
                   None \<Rightarrow> search_fail ''No search query provided''
                 | Some q \<Rightarrow>
                     if q = [] then search_fail ''No search query provided''
                     else try_except (search_try rt m q)
                            (\<lambda>e. search_fail (''Error searching memories: '' @ exc_text e))))"

text \<open>One entry of the formatted text, lines 189 to 199; \<open>i\<close> counts from 1.\<close>

definition newline :: char where
  "newline = CHR 0x0A"

definition format_entry :: "'o runtime \<Rightarrow> nat \<Rightarrow> 'o Data \<Rightarrow> pyexc + string" where
  "format_entry rt i result =
     (let data = data_of result;
          content = dict_get data ''content'' (PStr ''No content'');
          memory_type = dict_get data ''memory_type'' (PStr ''unknown'');
          similarity = dict_get data ''similarity_score'' PNone
      in case py_upper rt memory_type of
           Inl e \<Rightarrow> Inl e
         | Inr upper \<Rightarrow>
        (case py_str rt upper of
           Inl e \<Rightarrow> Inl e
         | Inr upper_text \<Rightarrow>
        (case py_str rt content of
           Inl e \<Rightarrow> Inl e
         | Inr content_text \<Rightarrow>
        (let line = str_of_nat i @ ''. ['' @ upper_text @ ''] '' @ content_text
         in if similarity \<noteq> PNone
            then (case py_format_2f rt similarity of
                    Inl e \<Rightarrow> Inl e
                  | Inr f \<Rightarrow> Inr (line @ '' (similarity: '' @ f @ '')'' @ [newline, newline]))
            else Inr (line @ [newline, newline])))))"

fun format_entries :: "'o runtime \<Rightarrow> nat \<Rightarrow> 'o Data list \<Rightarrow> string \<Rightarrow> pyexc + string" where
  "format_entries rt i [] formatted_text = Inr formatted_text"
| "format_entries rt i (r # rs) formatted_text =
     (case format_entry rt i r of
        Inl e \<Rightarrow> Inl e
      | Inr t \<Rightarrow> format_entries rt (Suc i) rs (formatted_text @ t))"

text \<open>
  \<open>get_formatted_results\<close>, lines 178 to 201. The loop is outside any \<open>try\<close>: an
  exception raised while an entry is formatted leaves the method.
\<close>

definition get_formatted_results :: "'o runtime \<Rightarrow> ('o Message, ('s, 'o) search_state) py" where
  "get_formatted_results rt =
     py_bind (search_memories rt) (\<lambda>_.
     py_bind get_self (\<lambda>c.
       if priv_search_results c = []
       then py_return (Message (PStr ''No memories found for the given query.''))
       else py_bind
              (py_lift (format_entries rt 1 (priv_search_results c)
                 (''Found '' @ str_of_nat (length (priv_search_results c)) @ '' memories:''
                  @ [newline, newline])))
              (\<lambda>formatted_text. py_return (Message (PStr formatted_text)))))"

text \<open>\<open>get_memory_analytics\<close> and \<open>get_result_count\<close>, lines 203 to 211.\<close>

definition get_memory_analytics :: "'o runtime \<Rightarrow> ('o Data, ('s, 'o) search_state) py" where
  "get_memory_analytics rt =
     py_bind (search_memories rt) (\<lambda>_.
     py_bind get_self (\<lambda>c. py_return (Data (priv_analytics c))))"

definition get_result_count :: "'o runtime \<Rightarrow> ('o Message, ('s, 'o) search_state) py" where
  "get_result_count rt =
     py_bind (search_memories rt) (\<lambda>_.
     py_bind get_self (\<lambda>c. py_return (Message (PStr (str_of_nat (length (priv_search_results c)))))))"

section \<open>ElizaMemoryStoreComponent\<close>

text \<open>
  The inputs of the node and the three cached attributes \<open>_stored_memory\<close>,
  \<open>_memory_id\<close> and \<open>_storage_status\<close>. The metadata input is a dict or \<open>None\<close>.
\<close>

record ('s, 'o) store_component =
  content :: "string option"
  user_id :: string
  session_id :: string
  memory_type :: string
  tags :: "string option"
  metadata :: "'o pydict option"
  relevance_score :: "'o pyval"
  generate_embedding :: bool
  memory_instance :: "('s, 'o) ElizaLongTermMemory option"
  priv_stored_memory :: "'o Data option"
  priv_memory_id :: "'o pyval"
  priv_storage_status :: string

type_synonym ('s, 'o) store_state = "('s, 'o) store_component \<times> ('s, 'o) world"

text \<open>A dict-or-\<open>None\<close> input as a value.\<close>

definition dict_val :: "'o pydict option \<Rightarrow> 'o pyval" where
  "dict_val md = (case md of None \<Rightarrow> PNone | Some d \<Rightarrow> PDict d)"

text \<open>
  The \<open>add_memory\<close> branch, lines 140 to 154: the call, then the look-up of the stored
  record through the instance's \<open>memory_store\<close>, when it has one.
\<close>

definition add_memory_branch ::
  "('s, 'o) ElizaLongTermMemory \<Rightarrow> string \<Rightarrow> string list \<Rightarrow> (unit, ('s, 'o) store_state) py" where
  "add_memory_branch m cont tgs =
     py_bind get_self (\<lambda>c.
     py_bind (invoke (type_name m) ''add_memory'' []
                [(''content'', AStr cont), (''memory_type'', AStr (memory_type c)),
                 (''metadata'', AVal (dict_val (store_component.metadata c))), (''tags'', AStrList tgs)]
                (map_option (\<lambda>f. f cont (memory_type c) (dict_val (store_component.metadata c)) tgs)
                   (mem_add_memory m))) (\<lambda>new_id.
     py_then (modify_self (\<lambda>c. c\<lparr>priv_memory_id := new_id\<rparr>))
     (py_bind (hasattr ''memory_store'' (mem_memory_store m)) (\<lambda>has_store.
        if has_store
        then py_bind (getattr (type_name m) ''memory_store'' (mem_memory_store m)) (\<lambda>memories.
             py_bind (ext_read memories) (\<lambda>ms.
             let stored_memories = filter (\<lambda>d. dict_get d ''id'' PNone = new_id) ms
             in case stored_memories of
                  [] \<Rightarrow> py_return ()
                | d # _ \<Rightarrow> modify_self (\<lambda>c. c\<lparr>priv_stored_memory := Some (Data d)\<rparr>)))
        else py_return ()))))"

text \<open>The truth value of what the engine's \<open>store_memory\<close> returned.\<close>

fun stored_truthy :: "'o runtime \<Rightarrow> 'o stored \<Rightarrow> bool" where
  "stored_truthy rt (StoredValue v) = py_truthy rt v"
| "stored_truthy rt (StoredObject tn td ident) = True"

text \<open>The \<open>store_memory\<close> branch, lines 158 to 174.\<close>

definition store_memory_branch ::
  "'o runtime \<Rightarrow> ('s, 'o) ElizaLongTermMemory \<Rightarrow> string \<Rightarrow> string list
     \<Rightarrow> (unit, ('s, 'o) store_state) py" where
  "store_memory_branch rt m cont tgs =
     py_bind get_self (\<lambda>c.
     py_bind (invoke (type_name m) ''store_memory'' []
                [(''user_id'', AStr (store_component.user_id c)), (''content'', AStr cont),
                 (''memory_type'', AStr (memory_type c)), (''session_id'', AStr (session_id c)),
                 (''metadata'', AVal (dict_val (store_component.metadata c))), (''tags'', AStrList tgs),
                 (''relevance_score'', AVal (relevance_score c))]
                (map_option (\<lambda>f. f (store_component.user_id c) cont (memory_type c) (session_id c)
                                 (dict_val (store_component.metadata c)) tgs (relevance_score c))
                   (mem_store_memory m))) (\<lambda>stored_memory_obj.
     if stored_truthy rt stored_memory_obj
     then (case stored_memory_obj of
             StoredObject tn to_dict ident \<Rightarrow>
               py_bind (py_lift to_dict) (\<lambda>d.
               py_then (modify_self (\<lambda>c. c\<lparr>priv_stored_memory := Some (Data d)\<rparr>))
               (py_bind (case ident of
                           None \<Rightarrow> py_raise (no_attribute tn ''id'')
                         | Some v \<Rightarrow> py_lift (py_str rt v)) (\<lambda>id_text.
                modify_self (\<lambda>c. c\<lparr>priv_memory_id := PStr id_text\<rparr>))))
           | StoredValue v \<Rightarrow>
               py_bind (py_lift (py_str rt v)) (\<lambda>id_text.
               py_then (modify_self (\<lambda>c. c\<lparr>priv_stored_memory := Some (Data [(''id'', PStr id_text)])\<rparr>))
               (py_bind (py_lift (py_str rt v)) (\<lambda>id_text.
                modify_self (\<lambda>c. c\<lparr>priv_memory_id := PStr id_text\<rparr>)))))
     else py_return ()))"

text \<open>
  The end of the \<open>try\<close>, lines 180 to 193: the status, and the stored record or, when
  there is none, the inputs as a record.
\<close>

definition store_finish ::
  "'o runtime \<Rightarrow> string \<Rightarrow> string list \<Rightarrow> ('o Data, ('s, 'o) store_state) py" where
  "store_finish rt cont tgs =
     py_bind get_self (\<lambda>c.
     py_then
       (if py_truthy rt (priv_memory_id c)
        then py_bind (py_lift (py_str rt (priv_memory_id c))) (\<lambda>id_text.
               modify_self (\<lambda>c. c\<lparr>priv_storage_status :=
                 ''Successfully stored memory with ID: '' @ id_text\<rparr>))
        else modify_self (\<lambda>c. c\<lparr>priv_storage_status := ''Memory stored but ID not available''\<rparr>))
       (case priv_stored_memory c of
          Some d \<Rightarrow> py_return d
        | None \<Rightarrow>
            py_return (Data
              [(''content'', PStr cont),
               (''memory_type'', PStr (memory_type c)),
               (''user_id'', PStr (store_component.user_id c)),
               (''session_id'', PStr (session_id c)),
               (''tags'', PList (map PStr tgs)),
               (''metadata'', dict_val (store_component.metadata c)),
               (''relevance_score'', relevance_score c)])))"

definition store_fail :: "string \<Rightarrow> ('o Data, ('s, 'o) store_state) py" where
  "store_fail msg =
     py_then (modify_self (\<lambda>c. c\<lparr>priv_storage_status := msg\<rparr>)) (py_return (Data []))"

text \<open>
  The body of the \<open>try\<close> of \<open>store_memory\<close>, lines 132 to 193, for the memory instance
  \<open>m\<close> and the content \<open>cont\<close> that passed the two guards.
\<close>

definition store_try ::
  "'o runtime \<Rightarrow> ('s, 'o) ElizaLongTermMemory \<Rightarrow> string \<Rightarrow> ('o Data, ('s, 'o) store_state) py" where
  "store_try rt m cont =
     py_bind get_self (\<lambda>c.
     let tgs = parse_list (store_component.tags c)
     in
     py_bind (hasattr ''add_memory'' (mem_add_memory m)) (\<lambda>has_add.
       if has_add
       then py_then (add_memory_branch m cont tgs) (store_finish rt cont tgs)
       else py_bind (hasattr ''store_memory'' (mem_store_memory m)) (\<lambda>has_store.
              if has_store
              then py_then (store_memory_branch rt m cont tgs) (store_finish rt cont tgs)
              else store_fail ''Error: Memory instance does not support memory storage'')))"

text \<open>\<open>store_memory\<close>, lines 121 to 197.\<close>

definition store_memory :: "'o runtime \<Rightarrow> ('o Data, ('s, 'o) store_state) py" where
  "store_memory rt =
     py_bind get_self (\<lambda>c.
       case store_component.memory_instance c of
         None \<Rightarrow> store_fail ''Error: No memory instance provided''
       | Some m \<Rightarrow>
           if \<not> is_truthy m then store_fail ''Error: No memory instance provided''
           else (case content c of
                   None \<Rightarrow> store_fail ''Error: No content provided''
                 | Some cont \<Rightarrow>
                     if cont = [] then store_fail ''Error: No content provided''
                     else try_except (store_try rt m cont)
                            (\<lambda>e. store_fail (''Error storing memory: '' @ exc_text e))))"

text \<open>
  The three other outputs, lines 199 to 212. \<open>x or y\<close> is \<open>x\<close> when \<open>x\<close> is true,
  else \<open>y\<close>.
\<close>

definition get_memory_id :: "'o runtime \<Rightarrow> ('o Message, ('s, 'o) store_state) py" where
  "get_memory_id rt =
     py_bind (store_memory rt) (\<lambda>_.
     py_bind get_self (\<lambda>c.
       py_return (Message (if py_truthy rt (priv_memory_id c) then priv_memory_id c
                           else PStr ''No memory ID available''))))"

definition get_storage_status :: "'o runtime \<Rightarrow> ('o Message, ('s, 'o) store_state) py" where
  "get_storage_status rt =
     py_bind (store_memory rt) (\<lambda>_.
     py_bind get_self (\<lambda>c. py_return (Message (PStr (priv_storage_status c)))))"

definition get_updated_memory_instance ::
  "'o runtime \<Rightarrow> (('s, 'o) ElizaLongTermMemory option, ('s, 'o) store_state) py" where
  "get_updated_memory_instance rt =
     py_bind (store_memory rt) (\<lambda>_.
     py_bind get_self (\<lambda>c. py_return (store_component.memory_instance c)))"

section \<open>ElizaMemoryComponent\<close>

text \<open>
  The inputs of the node, the \<open>status\<close> sink, and the four cached attributes
  \<open>_memory_instance\<close>, \<open>_memory_context\<close>, \<open>_stored_message\<close> and
  \<open>_relevant_memories\<close>.
\<close>

record ('s, 'o) memory_component =
  session_id :: string
  user_id :: string
  message :: "string option"
  extract_memories :: bool
  include_context :: bool
  max_memories :: int
  metadata :: "'o pydict option"
  existing_memory :: "('s, 'o) ElizaLongTermMemory option"
  status :: string
  priv_memory_instance :: "('s, 'o) ElizaLongTermMemory option"
  priv_memory_context :: "'o pyval"
  priv_stored_message :: "'o Data option"
  priv_relevant_memories :: "'o memory pyiter"

type_synonym ('s, 'o) memory_state = "('s, 'o) memory_component \<times> ('s, 'o) world"

text \<open>
  The function \<open>create_eliza_memory\<close> of the external library, called with the keywords
  \<open>session_id\<close>, \<open>user_id\<close> and \<open>memory_extraction\<close>; and the outcome of the
  \<open>import\<close> statement that fetches it, which raises when the module is not there.
\<close>

type_synonym ('s, 'o) creator =
  "string \<Rightarrow> string \<Rightarrow> bool \<Rightarrow> (('s, 'o) ElizaLongTermMemory, 's) ext"

type_synonym ('s, 'o) import_outcome = "pyexc + ('s, 'o) creator"

text \<open>The truth value of a dict-or-\<open>None\<close> input.\<close>

definition dict_truthy :: "'o pydict option \<Rightarrow> bool" where
  "dict_truthy md = (case md of None \<Rightarrow> False | Some d \<Rightarrow> d \<noteq> [])"

text \<open>
  Lines 147 to 152: the \<open>inputs\<close> dict, the message under \<open>input\<close>, updated with the
  metadata when there are any.
\<close>

definition process_inputs :: "('s, 'o) memory_component \<Rightarrow> string \<Rightarrow> 'o pydict" where
  "process_inputs c msg =
     (let inputs = [(''input'', PStr msg)]
      in case memory_component.metadata c of
           None \<Rightarrow> inputs
         | Some d \<Rightarrow> if d \<noteq> [] then dict_update inputs d else inputs)"

text \<open>
  The body of the \<open>try\<close> of \<open>_process_message\<close>, lines 146 to 177, for the memory
  instance \<open>m\<close> and the message \<open>msg\<close> that passed the guard.
\<close>

definition process_try ::
  "('s, 'o) ElizaLongTermMemory \<Rightarrow> string \<Rightarrow> (unit, ('s, 'o) memory_state) py" where
  "process_try m msg =
     py_bind get_self (\<lambda>c.
     let inputs = process_inputs c msg;
         outputs = [(''output'', PStr [])]
     in
     py_then (invoke (type_name m) ''save_context''
                [AVal (PDict inputs), AVal (PDict outputs)] []
                (map_option (\<lambda>f. f inputs outputs) (mem_save_context m)))
     (py_then
       (if include_context c
        then py_bind (invoke (type_name m) ''search_memories''
                        [AStr msg] [(''limit'', AInt (max_memories c))]
                        (map_option (\<lambda>f. f msg None (max_memories c)) (mem_search_memories m))) (\<lambda>found.
             py_then (modify_self (\<lambda>c. c\<lparr>priv_relevant_memories := found\<rparr>))
             (py_bind (invoke (type_name m) ''load_memory_variables''
                         [AVal (PDict inputs)] []
                         (map_option (\<lambda>f. f inputs) (mem_load_memory_variables m))) (\<lambda>memory_vars.
              py_bind (getattr (type_name m) ''memory_key'' (mem_memory_key m)) (\<lambda>key.
              modify_self (\<lambda>c. c\<lparr>priv_memory_context := dict_get memory_vars key (PStr [])\<rparr>)))))
        else py_return ())
     (py_bind (invoke (type_name m) ''_get_timestamp'' [] [] (mem_get_timestamp m)) (\<lambda>timestamp.
      modify_self (\<lambda>c. c\<lparr>priv_stored_message := Some (Data
        [(''content'', PStr msg),
         (''session_id'', PStr (memory_component.session_id c)),
         (''user_id'', PStr (memory_component.user_id c)),
         (''timestamp'', timestamp),
         (''metadata'', if dict_truthy (memory_component.metadata c)
                        then dict_val (memory_component.metadata c) else PDict [])])\<rparr>)))))"

definition set_status :: "string \<Rightarrow> (unit, ('s, 'o) memory_state) py" where
  "set_status msg = modify_self (\<lambda>c. c\<lparr>memory_component.status := msg\<rparr>)"

text \<open>\<open>_process_message\<close>, lines 140 to 180: it has its own \<open>try\<close> and returns nothing.\<close>

definition process_message :: "(unit, ('s, 'o) memory_state) py" where
  "process_message =
     py_bind get_self (\<lambda>c.
       case priv_memory_instance c of
         None \<Rightarrow> py_return ()
       | Some m \<Rightarrow>
           if \<not> is_truthy m then py_return ()
           else (case message c of
                   None \<Rightarrow> py_return ()
                 | Some msg \<Rightarrow>
                     if msg = [] then py_return ()
                     else try_except (process_try m msg)
                            (\<lambda>e. set_status (''Error processing message: '' @ exc_text e))))"

text \<open>The body of the \<open>try\<close> of \<open>build_memory\<close>, lines 119 to 134.\<close>

definition build_try ::
  "('s, 'o) import_outcome
     \<Rightarrow> (('s, 'o) ElizaLongTermMemory option, ('s, 'o) memory_state) py" where
  "build_try imported =
     py_bind (py_lift imported) (\<lambda>create_eliza_memory.
     py_bind get_self (\<lambda>c.
     py_then
       (if instance_truthy (existing_memory c)
        then modify_self (\<lambda>c. c\<lparr>priv_memory_instance := existing_memory c\<rparr>)
        else py_then
               (log_event (FunCall ''create_eliza_memory'' []
                  [(''session_id'', AStr (memory_component.session_id c)),
                   (''user_id'', AStr (memory_component.user_id c)),
                   (''memory_extraction'', ABool (extract_memories c))]))
               (py_bind (ext_call (create_eliza_memory (memory_component.session_id c)
                                     (memory_component.user_id c) (extract_memories c))) (\<lambda>created.
                modify_self (\<lambda>c. c\<lparr>priv_memory_instance := Some created\<rparr>))))
     (py_then
       (if text_truthy (message c) then process_message else py_return ())
       (py_bind get_self (\<lambda>c. py_return (priv_memory_instance c))))))"

text \<open>\<open>build_memory\<close>, lines 115 to 138.\<close>

definition build_memory ::
  "('s, 'o) import_outcome
     \<Rightarrow> (('s, 'o) ElizaLongTermMemory option, ('s, 'o) memory_state) py" where
  "build_memory imported =
     try_except (build_try imported)
       (\<lambda>e. py_then (set_status (''Error building memory: '' @ exc_text e)) (py_return None))"

text \<open>The four outputs, lines 182 to 204.\<close>

definition get_memory_context ::
  "'o runtime \<Rightarrow> ('s, 'o) import_outcome \<Rightarrow> ('o Message, ('s, 'o) memory_state) py" where
  "get_memory_context rt imported =
     py_bind (build_memory imported) (\<lambda>_.
     py_bind get_self (\<lambda>c.
       py_return (Message (if py_truthy rt (priv_memory_context c) then priv_memory_context c
                           else PStr ''No memory context available.''))))"

definition get_memory_instance ::
  "('s, 'o) import_outcome
     \<Rightarrow> (('s, 'o) ElizaLongTermMemory option, ('s, 'o) memory_state) py" where
  "get_memory_instance imported = build_memory imported"

definition get_stored_message ::
  "('s, 'o) import_outcome \<Rightarrow> ('o Data, ('s, 'o) memory_state) py" where
  "get_stored_message imported =
     py_bind (build_memory imported) (\<lambda>_.
     py_bind get_self (\<lambda>c.
       py_return (case priv_stored_message c of Some d \<Rightarrow> d | None \<Rightarrow> Data [])))"

text \<open>
  \<open>get_relevant_memories\<close> wraps what the engine's search returned, record by record;
  the loop is outside any \<open>try\<close>.
\<close>

fun wrap_memories :: "'o runtime \<Rightarrow> 'o memory list \<Rightarrow> pyexc + 'o Data list" where
  "wrap_memories rt [] = Inr []"
| "wrap_memories rt (x # xs) =
     (case make_Data rt x of
        Inl e \<Rightarrow> Inl e
      | Inr d \<Rightarrow> (case wrap_memories rt xs of Inl e \<Rightarrow> Inl e | Inr ds \<Rightarrow> Inr (d # ds)))"

fun wrap_relevant :: "'o runtime \<Rightarrow> 'o memory pyiter \<Rightarrow> pyexc + 'o Data list" where
  "wrap_relevant rt (PyIter xs failure) =
     (case wrap_memories rt xs of
        Inl e \<Rightarrow> Inl e
      | Inr ds \<Rightarrow> (case failure of None \<Rightarrow> Inr ds | Some e \<Rightarrow> Inl e))"

definition get_relevant_memories ::
  "'o runtime \<Rightarrow> ('s, 'o) import_outcome \<Rightarrow> ('o Data list, ('s, 'o) memory_state) py" where
  "get_relevant_memories rt imported =
     py_bind (build_memory imported) (\<lambda>_.
     py_bind get_self (\<lambda>c. py_lift (wrap_relevant rt (priv_relevant_memories c))))"

section \<open>Concrete scenarios\<close>

text \<open>
  The runtime of the scenarios. The opaque values are Python's two booleans, whose
  truth value, \<open>str\<close>, and \<open>.2f\<close> rendering are as below and which have no
  \<open>upper\<close>; \<open>upper\<close> of a string is given on ASCII letters. No scenario renders a
  list or a dict, or has the host reject a payload; these two entries only complete the
  record.
\<close>

definition ascii_upper :: "string \<Rightarrow> string" where
  "ascii_upper s =
     map (\<lambda>c. let n = (of_char c :: nat) in if 97 \<le> n \<and> n \<le> 122 then char_of (n - 32) else c) s"

definition scenario_runtime :: "bool runtime" where
  "scenario_runtime =
     \<lparr>opaque_truthy = (\<lambda>b. b),
      opaque_str = (\<lambda>b. Inr (if b then ''True'' else ''False'')),
      opaque_upper = (\<lambda>b. Inl (no_attribute ''bool'' ''upper'')),
      opaque_format_2f = (\<lambda>b. Inr (if b then ''1.00'' else ''0.00'')),
      container_str = (\<lambda>v. Inr ''<container>''),
      str_upper = ascii_upper,
      data_invalid = PyExc ''Invalid data format: expected dictionary''\<rparr>"

text \<open>
  Engines whose state counts the calls made on them: one with none of the attributes, and
  one with all of them, every method returning normally.
\<close>

definition bare_engine :: "(nat, bool) ElizaLongTermMemory" where
  "bare_engine =
     \<lparr>type_name = ''ElizaLongTermMemory'', is_truthy = True,
      mem_save_context = None, mem_load_memory_variables = None, mem_memory_key = None,
      mem_get_timestamp = None, mem_search_memories = None,
      mem_search_memories_semantic = None, mem_get_memory_analytics = None,
      mem_add_memory = None, mem_memory_store = None, mem_store_memory = None\<rparr>"

definition tea_record :: "bool pydict" where
  "tea_record = [(''id'', PStr ''m1''), (''content'', PStr ''likes tea''), (''memory_type'', PStr ''preference'')]"

definition cat_record :: "bool pydict" where
  "cat_record = [(''id'', PStr ''m2''), (''content'', PStr ''has a cat''), (''memory_type'', PStr ''factual'')]"

definition full_engine :: "(nat, bool) ElizaLongTermMemory" where
  "full_engine =
     \<lparr>type_name = ''ElizaLongTermMemory'', is_truthy = True,
      mem_save_context = Some (\<lambda>inputs outputs n. (Inr (), Suc n)),
      mem_load_memory_variables = Some (\<lambda>inputs n. (Inr [(''history'', PStr ''earlier talk'')], Suc n)),
      mem_memory_key = Some ''history'',
      mem_get_timestamp = Some (\<lambda>n. (Inr (PStr ''2024-01-01T00:00:00''), Suc n)),
      mem_search_memories =
        Some (\<lambda>q mts lim n. (Inr (PyIter [MemDict tea_record, MemDict cat_record] None), Suc n)),
      mem_search_memories_semantic =
        Some (\<lambda>q lim mts n. (Inr (PyIter [(MemDict tea_record, POpaque True)] None), Suc n)),
      mem_get_memory_analytics = Some (\<lambda>n. (Inr [(''total'', PStr ''2'')], Suc n)),
      mem_add_memory = Some (\<lambda>cont mt md tgs n. (Inr (PStr ''m1''), Suc n)),
      mem_memory_store = Some (\<lambda>n. Inr [tea_record, cat_record]),
      mem_store_memory = Some (\<lambda>uid cont mt sid md tgs score n. (Inr (StoredValue (PStr ''m3'')), Suc n))\<rparr>"

definition fresh_world :: "(nat, bool) world" where
  "fresh_world = \<lparr>engine_state = 0, trace = []\<rparr>"

text \<open>A search node with the defaults of its inputs, a query and a memory instance.\<close>

definition search_node :: "(nat, bool) ElizaLongTermMemory option \<Rightarrow> string option \<Rightarrow> (nat, bool) search_component" where
  "search_node inst q =
     \<lparr>search_query = q, search_component.user_id = ''anonymous'', memory_types = Some '' preference, factual'',
      search_component.tags = Some [], limit = 10, semantic_search = True, include_analytics = False,
      search_component.memory_instance = inst, search_component.status = [],
      priv_search_results = [], priv_analytics = []\<rparr>"

text \<open>A store node with the defaults of its inputs, a content and a memory instance.\<close>

definition store_node :: "(nat, bool) ElizaLongTermMemory option \<Rightarrow> string option \<Rightarrow> (nat, bool) store_component" where
  "store_node inst cont =
     \<lparr>content = cont, store_component.user_id = ''anonymous'', store_component.session_id = ''default_session'',
      memory_type = ''general'', store_component.tags = Some ''tea, drinks'', store_component.metadata = None,
      relevance_score = POpaque True, generate_embedding = True,
      store_component.memory_instance = inst, priv_stored_memory = None, priv_memory_id = PNone,
      priv_storage_status = ''Not attempted''\<rparr>"

text \<open>A memory node with the defaults of its inputs, a message and an existing instance.\<close>

definition memory_node :: "(nat, bool) ElizaLongTermMemory option \<Rightarrow> string option \<Rightarrow> (nat, bool) memory_component" where
  "memory_node inst msg =
     \<lparr>memory_component.session_id = ''default_session'', memory_component.user_id = ''anonymous'',
      message = msg, extract_memories = True, include_context = True, max_memories = 5,
      memory_component.metadata = None, existing_memory = inst, memory_component.status = [],
      priv_memory_instance = None, priv_memory_context = PStr [], priv_stored_message = None,
      priv_relevant_memories = PyIter [] None\<rparr>"

text \<open>The library's \<open>create_eliza_memory\<close> of the scenarios, and a failed import.\<close>

definition scenario_create :: "(nat, bool) creator" where
  "scenario_create sid uid extraction = (\<lambda>n. (Inr full_engine, Suc n))"

definition missing_module :: "(nat, bool) import_outcome" where
  "missing_module = Inl (PyExc (''No module named '' @ [CHR 0x27] @ ''langchain.memory.eliza_memory'' @ [CHR 0x27]))"

text \<open>
  An engine whose analytics fail, and a search node that asks for them.
\<close>

definition no_analytics_engine :: "(nat, bool) ElizaLongTermMemory" where
  "no_analytics_engine =
     full_engine\<lparr>mem_get_memory_analytics := Some (\<lambda>n. (Inl (PyExc ''analytics unavailable''), Suc n))\<rparr>"

definition analytics_node :: "(nat, bool) search_component" where
  "analytics_node = (search_node (Some no_analytics_engine) (Some ''tea''))\<lparr>include_analytics := True\<rparr>"

text \<open>A search node that asks for the keyword search.\<close>

definition keyword_node :: "(nat, bool) search_component" where
  "keyword_node = (search_node (Some full_engine) (Some ''tea''))\<lparr>semantic_search := False\<rparr>"

definition two_memories_text :: string where
  "two_memories_text =
     ''Found 2 memories:'' @ [newline, newline]
     @ ''1. [PREFERENCE] likes tea'' @ [newline, newline]
     @ ''2. [FACTUAL] has a cat'' @ [newline, newline]"

text \<open>
  An engine whose search, storage and context calls raise, and a library function that
  cannot create an instance.
\<close>

definition down_engine :: "(nat, bool) ElizaLongTermMemory" where
  "down_engine =
     full_engine
       \<lparr>mem_save_context := Some (\<lambda>inputs outputs n. (Inl (PyExc ''engine down''), Suc n)),
        mem_search_memories_semantic := Some (\<lambda>q lim mts n. (Inl (PyExc ''engine down''), Suc n)),
        mem_add_memory := Some (\<lambda>cont mt md tgs n. (Inl (PyExc ''engine down''), Suc n))\<rparr>"

definition failing_create :: "(nat, bool) creator" where
  "failing_create sid uid extraction = (\<lambda>n. (Inl (PyExc ''no database''), n))"

text \<open>A library function that creates the engine whose calls raise.\<close>

definition down_create :: "(nat, bool) creator" where
  "down_create sid uid extraction = (\<lambda>n. (Inr down_engine, Suc n))"

section \<open>Reasoning about what a method leaves behind\<close>

text \<open>
  \<open>stable R m\<close>: whatever \<open>m\<close> returns or raises, the state it leaves is related by \<open>R\<close>
  to the state it started in.
\<close>

definition stable :: "('st \<Rightarrow> 'st \<Rightarrow> bool) \<Rightarrow> ('a, 'st) py \<Rightarrow> bool" where
  "stable R m = (\<forall>s. R s (snd (m s)))"

text \<open>
  \<open>extends P\<close>: the trace has grown by events that all satisfy \<open>P\<close>, and by nothing else.
\<close>

definition extends :: "('o event \<Rightarrow> bool) \<Rightarrow> 'c \<times> ('s, 'o) world \<Rightarrow> 'c \<times> ('s, 'o) world \<Rightarrow> bool" where
  "extends P s s' = (\<exists>evs. trace (snd s') = trace (snd s) @ evs \<and> list_all P evs)"

text \<open>
  The attributes of the memory instance that the specification lists, and the ones the
  three adapters touch.
\<close>

definition listed_members :: "string list" where
  "listed_members =
     [''save_context'', ''load_memory_variables'', ''search_memories'',
      ''search_memories_semantic'', ''add_memory'', ''store_memory'', ''get_memory_analytics'']"

definition touched_members :: "string list" where
  "touched_members = listed_members @ [''memory_store'', ''memory_key'', ''_get_timestamp'']"

definition touches_only :: "string list \<Rightarrow> 'o event \<Rightarrow> bool" where
  "touches_only names ev = (case event_member ev of None \<Rightarrow> True | Some n \<Rightarrow> n \<in> set names)"

text \<open>An event that is a use of the memory instance, not a call of a library function.\<close>

definition on_instance :: "'o event \<Rightarrow> bool" where
  "on_instance ev = (event_member ev \<noteq> None)"

section \<open>Properties of the parsing\<close>

lemma split_comma_nonempty: "split_comma s \<noteq> []"
  by (induction s) (auto split: list.splits)

lemma join_split_comma: "join_comma (split_comma s) = s"
proof (induction s)
  case Nil
  show ?case by simp
next
  case (Cons c cs)
  obtain p ps where sp: "split_comma cs = p # ps"
    using split_comma_nonempty [of cs] by (cases "split_comma cs") auto
  show ?case
  proof (cases "c = CHR '',''")
    case True
    with Cons sp show ?thesis by simp
  next
    case False
    with Cons sp show ?thesis by (cases ps) auto
  qed
qed

lemma split_comma_no_comma: "p \<in> set (split_comma s) \<Longrightarrow> CHR '','' \<notin> set p"
proof (induction s arbitrary: p)
  case Nil
  then show ?case by simp
next
  case (Cons c cs)
  then show ?case
    by (cases "split_comma cs") (auto split: if_splits)
qed

lemma strip_hd: "strip t \<noteq> [] \<Longrightarrow> \<not> py_isspace (hd (strip t))"
proof -
  assume ne: "strip t \<noteq> []"
  define u where "u = dropWhile py_isspace t"
  define v where "v = dropWhile py_isspace (rev u)"
  have st: "strip t = rev v" by (simp add: strip_def u_def v_def)
  with ne have vne: "v \<noteq> []" by simp
  then have une: "u \<noteq> []" by (auto simp: v_def)
  have "hd (rev v) = last v" using vne by (simp add: hd_rev)
  also have "last v = last (rev u)"
  proof -
    have "rev u = takeWhile py_isspace (rev u) @ v" by (simp add: v_def)
    then have "last (rev u) = last (takeWhile py_isspace (rev u) @ v)" by simp
    also have "\<dots> = last v" using vne by simp
    finally show ?thesis by simp
  qed
  also have "last (rev u) = hd u" using une by (simp add: last_rev)
  finally have "hd (strip t) = hd u" by (simp add: st)
  moreover have "\<not> py_isspace (hd u)" using une unfolding u_def by (rule hd_dropWhile)
  ultimately show ?thesis by simp
qed

lemma strip_last: "strip t \<noteq> [] \<Longrightarrow> \<not> py_isspace (last (strip t))"
proof -
  assume ne: "strip t \<noteq> []"
  define v where "v = dropWhile py_isspace (rev (dropWhile py_isspace t))"
  have st: "strip t = rev v" by (simp add: strip_def v_def)
  with ne have vne: "v \<noteq> []" by simp
  have "last (rev v) = hd v" using vne by (simp add: last_rev)
  moreover have "\<not> py_isspace (hd v)" using vne unfolding v_def by (rule hd_dropWhile)
  ultimately show ?thesis by (simp add: st)
qed

lemma parse_list_elem:
  "t \<in> set (parse_list inp) \<Longrightarrow> t \<noteq> [] \<and> \<not> py_isspace (hd t) \<and> \<not> py_isspace (last t)"
  by (auto simp: parse_list_def strip_hd strip_last split: option.splits if_splits)

lemma parse_list_as_spec: "parse_list (Some s) = parse_list_spec s"
proof (cases "s = []")
  case True
  then show ?thesis by (simp add: parse_list_def parse_list_spec_def strip_def)
next
  case False
  then show ?thesis by (simp add: parse_list_def parse_list_spec_def filter_map comp_def)
qed

text \<open>
  Claim C4. In every adapter the \<open>memory_types\<close> and \<open>tags\<close> inputs are parsed by
  splitting the input on commas, stripping the whitespace around each piece and dropping
  the pieces that are empty after stripping; an absent or empty input gives the empty
  list, and no element of the result is empty or begins or ends with whitespace.
\<close>

theorem C4_parse_list:
  "parse_list None = []
   \<and> parse_list (Some []) = []
   \<and> parse_list (Some s) = filter (\<lambda>t. t \<noteq> []) (map strip (split_comma s))
   \<and> (\<forall>t \<in> set (parse_list inp). t \<noteq> [] \<and> \<not> py_isspace (hd t) \<and> \<not> py_isspace (last t))"
proof -
  have "parse_list None = []" and "parse_list (Some []) = []"
    by (simp_all add: parse_list_def)
  moreover have "parse_list (Some s) = filter (\<lambda>t. t \<noteq> []) (map strip (split_comma s))"
    using parse_list_as_spec [of s] by (simp add: parse_list_spec_def)
  moreover have "\<forall>t \<in> set (parse_list inp). t \<noteq> [] \<and> \<not> py_isspace (hd t) \<and> \<not> py_isspace (last t)"
    using parse_list_elem by blast
  ultimately show ?thesis by blast
qed

theorem C4_parse_list_witness:
  "parse_list (Some '' preference, factual ,,contextual '') = [''preference'', ''factual'', ''contextual'']
   \<and> list_all (\<lambda>t. t \<noteq> [] \<and> \<not> py_isspace (hd t) \<and> \<not> py_isspace (last t))
        [''preference'', ''factual'', ''contextual'']"
proof -
  have ev: "parse_list (Some '' preference, factual ,,contextual '') = [''preference'', ''factual'', ''contextual'']"
    by code_simp
  show ?thesis
    using C4_parse_list [of "'' preference, factual ,,contextual ''" "Some '' preference, factual ,,contextual ''"]
    unfolding ev list_all_iff by blast
qed

section \<open>Rules for \<open>stable\<close>\<close>

lemmas py_defs =
  py_return_def py_raise_def py_bind_def py_then_def py_lift_def try_except_def
  get_self_def modify_self_def log_event_def ext_call_def ext_read_def hasattr_def getattr_def invoke_def

lemma stableD: "stable R m \<Longrightarrow> R s (snd (m s))"
  by (simp add: stable_def)

lemma stable_return: "reflp R \<Longrightarrow> stable R (py_return x)"
  by (simp add: stable_def py_return_def reflpD)

lemma stable_raise: "reflp R \<Longrightarrow> stable R (py_raise e)"
  by (simp add: stable_def py_raise_def reflpD)

lemma stable_lift: "reflp R \<Longrightarrow> stable R (py_lift r)"
  by (simp add: stable_def py_lift_def reflpD)

lemma stable_get_self: "reflp R \<Longrightarrow> stable R get_self"
  by (simp add: stable_def get_self_def reflpD split: prod.splits)

lemma stable_bind:
  assumes "transp R" and "stable R m" and "\<And>x. stable R (f x)"
  shows "stable R (py_bind m f)"
proof (unfold stable_def, intro allI)
  fix s
  obtain r s1 where ms: "m s = (r, s1)" by (cases "m s")
  have step1: "R s s1" using assms(2) ms by (auto simp: stable_def dest: spec [of _ s])
  show "R s (snd (py_bind m f s))"
  proof (cases r)
    case (Inl e)
    with ms step1 show ?thesis by (simp add: py_bind_def)
  next
    case (Inr x)
    have "R s1 (snd (f x s1))" using assms(3) [of x] by (simp add: stable_def)
    with step1 have "R s (snd (f x s1))" using assms(1) by (blast dest: transpD)
    with ms Inr show ?thesis by (simp add: py_bind_def)
  qed
qed

lemma stable_then:
  "transp R \<Longrightarrow> stable R m \<Longrightarrow> stable R k \<Longrightarrow> stable R (py_then m k)"
  by (simp add: py_then_def stable_bind)

lemma stable_try:
  assumes "transp R" and "stable R body" and "\<And>e. stable R (handler e)"
  shows "stable R (try_except body handler)"
proof (unfold stable_def, intro allI)
  fix s
  obtain r s1 where bs: "body s = (r, s1)" by (cases "body s")
  have step1: "R s s1" using assms(2) bs by (auto simp: stable_def dest: spec [of _ s])
  show "R s (snd (try_except body handler s))"
  proof (cases r)
    case (Inl e)
    have "R s1 (snd (handler e s1))" using assms(3) [of e] by (simp add: stable_def)
    with step1 have "R s (snd (handler e s1))" using assms(1) by (blast dest: transpD)
    with bs Inl show ?thesis by (simp add: try_except_def)
  next
    case (Inr x)
    with bs step1 show ?thesis by (simp add: try_except_def)
  qed
qed

lemma stable_for_list:
  "reflp R \<Longrightarrow> transp R \<Longrightarrow> (\<And>x. stable R (body x)) \<Longrightarrow> stable R (for_list xs body)"
  by (induction xs) (simp_all add: stable_return stable_then)

lemma stable_for_each:
  "reflp R \<Longrightarrow> transp R \<Longrightarrow> (\<And>x. stable R (body x)) \<Longrightarrow> stable R (for_each it body)"
  by (cases it) (auto intro!: stable_then stable_for_list stable_return stable_raise split: option.splits)

lemma stable_if:
  "(b \<Longrightarrow> stable R m) \<Longrightarrow> (\<not> b \<Longrightarrow> stable R k) \<Longrightarrow> stable R (if b then m else k)"
  by simp

lemma stable_case_option:
  "(x = None \<Longrightarrow> stable R m) \<Longrightarrow> (\<And>y. x = Some y \<Longrightarrow> stable R (f y))
     \<Longrightarrow> stable R (case x of None \<Rightarrow> m | Some y \<Rightarrow> f y)"
  by (cases x) simp_all

lemma stable_modify: "(\<And>c w. R (c, w) (f c, w)) \<Longrightarrow> stable R (modify_self f)"
  by (simp add: stable_def modify_self_def split: prod.splits)

lemma stable_log:
  "(\<And>c w. R (c, w) (c, w\<lparr>trace := trace w @ [ev]\<rparr>)) \<Longrightarrow> stable R (log_event ev)"
  by (simp add: stable_def log_event_def split: prod.splits)

lemma stable_ext_call:
  "(\<And>c w s'. R (c, w) (c, w\<lparr>engine_state := s'\<rparr>)) \<Longrightarrow> stable R (ext_call f)"
  by (simp add: stable_def ext_call_def split: prod.splits)

lemma stable_ext_read: "reflp R \<Longrightarrow> stable R (ext_read f)"
  by (simp add: stable_def ext_read_def reflpD split: prod.splits)

lemma stable_hasattr:
  "reflp R \<Longrightarrow> transp R \<Longrightarrow> stable R (log_event (HasAttr name)) \<Longrightarrow> stable R (hasattr name attr)"
  by (simp add: hasattr_def stable_then stable_return)

lemma stable_getattr:
  "reflp R \<Longrightarrow> transp R \<Longrightarrow> stable R (log_event (GetAttr name)) \<Longrightarrow> stable R (getattr tn name attr)"
  by (auto simp: getattr_def intro!: stable_then stable_return stable_raise split: option.splits)

lemma stable_invoke:
  assumes "reflp R" and "transp R"
    and "stable R (log_event (GetAttr name))"
    and "stable R (log_event (Call name args kwargs))"
    and "\<And>f. stable R (ext_call f :: ('a, 'c \<times> ('s, 'o) world) py)"
  shows "stable R (invoke tn name args kwargs meth :: ('a, 'c \<times> ('s, 'o) world) py)"
  unfolding invoke_def
  by (intro stable_bind stable_then stable_getattr assms)

lemma keeps_reflp: "reflp (\<lambda>s s'. f (fst s') = f (fst s))"
  by (simp add: reflp_def)

lemma keeps_transp: "transp (\<lambda>s s'. f (fst s') = f (fst s))"
  by (simp add: transp_def)

lemma keeps_log: "stable (\<lambda>s s'. f (fst s') = f (fst s)) (log_event ev)"
  by (simp add: stable_log)

lemma keeps_ext_call: "stable (\<lambda>s s'. f (fst s') = f (fst s)) (ext_call g)"
  by (simp add: stable_ext_call)

lemmas keeps_rules =
  stable_bind stable_then stable_try stable_for_each stable_invoke stable_hasattr stable_getattr
  stable_ext_read stable_return stable_raise stable_lift stable_get_self stable_modify
  keeps_log keeps_ext_call keeps_reflp keeps_transp

section \<open>Methods that never raise\<close>

lemma try_except_returns:
  assumes "\<And>e s. \<exists>x s'. handler e s = (Inr x, s')"
  shows "\<exists>x s'. try_except body handler s = (Inr x, s')"
proof -
  obtain r s1 where bs: "body s = (r, s1)" by (cases "body s")
  show ?thesis
  proof (cases r)
    case (Inl e)
    with bs assms [of e s1] show ?thesis by (simp add: try_except_def)
  next
    case (Inr x)
    with bs show ?thesis by (simp add: try_except_def)
  qed
qed

lemma search_fail_returns: "search_fail msg (c, w) = (Inr [], (c\<lparr>search_component.status := msg\<rparr>, w))"
  by (simp add: search_fail_def py_defs)

lemma store_fail_returns: "store_fail msg (c, w) = (Inr (Data []), (c\<lparr>priv_storage_status := msg\<rparr>, w))"
  by (simp add: store_fail_def py_defs)

lemma search_memories_returns: "\<exists>rs s'. search_memories rt s = (Inr rs, s')"
proof -
  obtain c w where s: "s = (c, w)" by (cases s)
  have h: "\<And>e s. \<exists>x s'. search_fail (''Error searching memories: '' @ exc_text e) s = (Inr x, s')"
    by (simp add: search_fail_def py_defs split: prod.splits)
  show ?thesis
    unfolding s search_memories_def
    using try_except_returns [of "\<lambda>e. search_fail (''Error searching memories: '' @ exc_text e)", OF h]
    by (auto simp: py_bind_def get_self_def search_fail_returns split: option.splits)
qed

lemma store_memory_returns: "\<exists>d s'. store_memory rt s = (Inr d, s')"
proof -
  obtain c w where s: "s = (c, w)" by (cases s)
  have h: "\<And>e s. \<exists>x s'. store_fail (''Error storing memory: '' @ exc_text e) s = (Inr x, s')"
    by (simp add: store_fail_def py_defs split: prod.splits)
  show ?thesis
    unfolding s store_memory_def
    using try_except_returns [of "\<lambda>e. store_fail (''Error storing memory: '' @ exc_text e)", OF h]
    by (auto simp: py_bind_def get_self_def store_fail_returns split: option.splits)
qed

lemma build_memory_returns: "\<exists>r s'. build_memory imported s = (Inr r, s')"
proof -
  have h: "\<And>e s. \<exists>x s'. py_then (set_status (''Error building memory: '' @ exc_text e)) (py_return None) s = (Inr x, s')"
    by (simp add: set_status_def py_defs split: prod.splits)
  show ?thesis
    unfolding build_memory_def
    by (rule try_except_returns [OF h])
qed

lemma py_then_world:
  "snd (snd (py_then m k s)) =
     (case fst (m s) of Inl e \<Rightarrow> snd (snd (m s)) | Inr x \<Rightarrow> snd (snd (k (snd (m s)))))"
  by (simp add: py_then_def py_bind_def split: prod.splits sum.splits)

lemma try_except_world:
  "snd (snd (try_except body handler s)) =
     (case fst (body s) of
        Inl e \<Rightarrow> snd (snd (handler e (snd (body s))))
      | Inr x \<Rightarrow> snd (snd (body s)))"
  by (simp add: try_except_def split: prod.splits sum.splits)

section \<open>The store node keeps its memory instance\<close>

lemma store_fail_keeps_instance:
  "stable (\<lambda>s s'. store_component.memory_instance (fst s') = store_component.memory_instance (fst s))
     (store_fail msg :: ('o Data, ('s, 'o) store_state) py)"
  unfolding store_fail_def by (intro keeps_rules) simp

lemma store_finish_keeps_instance:
  "stable (\<lambda>s s'. store_component.memory_instance (fst s') = store_component.memory_instance (fst s))
     (store_finish rt cont tgs :: ('o Data, ('s, 'o) store_state) py)"
  unfolding store_finish_def
  by (intro keeps_rules stable_if stable_case_option) simp_all

lemma add_memory_branch_keeps_instance:
  "stable (\<lambda>s s'. store_component.memory_instance (fst s') = store_component.memory_instance (fst s))
     (add_memory_branch m cont tgs :: (unit, ('s, 'o) store_state) py)"
  unfolding add_memory_branch_def Let_def
  by (intro keeps_rules stable_if stable_case_option) (auto intro!: keeps_rules split: list.splits)

lemma store_memory_branch_keeps_instance:
  "stable (\<lambda>s s'. store_component.memory_instance (fst s') = store_component.memory_instance (fst s))
     (store_memory_branch rt m cont tgs :: (unit, ('s, 'o) store_state) py)"
  unfolding store_memory_branch_def
  by (intro keeps_rules stable_if stable_case_option) (auto intro!: keeps_rules split: stored.splits option.splits)

lemma store_memory_keeps_instance:
  "stable (\<lambda>s s'. store_component.memory_instance (fst s') = store_component.memory_instance (fst s))
     (store_memory rt :: ('o Data, ('s, 'o) store_state) py)"
  unfolding store_memory_def store_try_def Let_def
  by (intro keeps_rules stable_if stable_case_option store_fail_keeps_instance
        store_finish_keeps_instance add_memory_branch_keeps_instance store_memory_branch_keeps_instance)

section \<open>What the search node does to the world\<close>

lemma same_world_reflp: "reflp (\<lambda>s s'. snd s' = snd s)"
  by (simp add: reflp_def)

lemma same_world_transp: "transp (\<lambda>s s'. snd s' = snd s)"
  by (simp add: transp_def)

lemmas same_world_rules =
  stable_bind stable_then stable_for_each stable_return stable_raise stable_lift stable_get_self
  stable_modify same_world_reflp same_world_transp

lemma convert_semantic_world: "stable (\<lambda>s s'. snd s' = snd s) (convert_semantic rt x)"
  unfolding convert_semantic_def by (cases x) (auto intro!: same_world_rules)

lemma convert_keyword_world: "stable (\<lambda>s s'. snd s' = snd s) (convert_keyword rt x)"
  unfolding convert_keyword_def by (auto intro!: same_world_rules)

lemma search_done_world: "snd (snd (search_done s)) = snd s"
  by (cases s) (simp add: search_done_def py_defs)

lemma search_fail_world: "snd (snd (search_fail msg s)) = snd s"
  by (cases s) (simp add: search_fail_returns)

lemma semantic_loop_world:
  "snd (snd (py_then (modify_self f) (for_each results (convert_semantic rt)) s)) = snd s"
  by (rule stableD [of "\<lambda>s s'. snd s' = snd s"])
     (auto intro!: same_world_rules convert_semantic_world)

lemma keyword_loop_world:
  "snd (snd (py_then (modify_self f) (for_each results (convert_keyword rt)) s)) = snd s"
  by (rule stableD [of "\<lambda>s s'. snd s' = snd s"])
     (auto intro!: same_world_rules convert_keyword_world)

lemma py_bind_apply:
  "py_bind m f s = (case m s of (Inl e, s') \<Rightarrow> (Inl e, s') | (Inr x, s') \<Rightarrow> f x s')"
  by (simp add: py_bind_def)

lemma get_self_apply: "get_self (c, w) = (Inr c, (c, w))"
  by (simp add: get_self_def)

lemma hasattr_apply:
  "hasattr name attr (c, w) = (Inr (attr \<noteq> None), (c, w\<lparr>trace := trace w @ [HasAttr name]\<rparr>))"
  by (simp add: hasattr_def py_defs)

lemma invoke_none:
  "invoke tn name args kwargs None (c, w) =
     (Inl (no_attribute tn name), (c, w\<lparr>trace := trace w @ [GetAttr name]\<rparr>))"
  by (simp add: invoke_def py_defs)

lemma invoke_some:
  "invoke tn name args kwargs (Some f) (c, w) =
     (fst (f (engine_state w)),
      (c, w\<lparr>trace := trace w @ [GetAttr name, Call name args kwargs],
            engine_state := snd (f (engine_state w))\<rparr>))"
  by (simp add: invoke_def py_defs split: prod.splits)

lemma semantic_branch_world:
  assumes "mem_search_memories_semantic m = Some f"
  shows "snd (snd (semantic_branch rt m q mts (c, w))) =
           w\<lparr>trace := trace w @
               [GetAttr ''search_memories_semantic'',
                Call ''search_memories_semantic'' [AStr q]
                  [(''limit'', AInt (limit c)), (''memory_types'', AStrList mts)]],
             engine_state := snd (f q (limit c) mts (engine_state w))\<rparr>"
  using assms
  by (simp add: semantic_branch_def py_bind_apply get_self_apply invoke_some semantic_loop_world
        split: sum.splits)

lemma keyword_branch_world:
  "snd (snd (keyword_branch rt m q mts (c, w))) =
     (case mem_search_memories m of
        None \<Rightarrow> w\<lparr>trace := trace w @ [GetAttr ''search_memories'']\<rparr>
      | Some f \<Rightarrow>
          w\<lparr>trace := trace w @
               [GetAttr ''search_memories'',
                Call ''search_memories'' [AStr q]
                  [(''memory_types'', AStrList mts), (''limit'', AInt (limit c))]],
            engine_state := snd (f q (Some mts) (limit c) (engine_state w))\<rparr>)"
  by (simp add: keyword_branch_def py_bind_apply get_self_apply invoke_some invoke_none
        keyword_loop_world split: sum.splits option.splits)

section \<open>Rules for \<open>extends\<close>\<close>

lemma extends_reflp: "reflp (extends P)"
  by (auto simp: reflp_def extends_def)

lemma extends_transp: "transp (extends P)"
proof (rule transpI)
  fix s t u
  assume "extends P s t" and "extends P t u"
  then obtain e1 e2 where
    "trace (snd t) = trace (snd s) @ e1" "list_all P e1"
    "trace (snd u) = trace (snd t) @ e2" "list_all P e2"
    by (auto simp: extends_def)
  then have "trace (snd u) = trace (snd s) @ (e1 @ e2) \<and> list_all P (e1 @ e2)" by simp
  then show "extends P s u" unfolding extends_def by blast
qed

lemma extends_log: "P ev \<Longrightarrow> stable (extends P) (log_event ev)"
  by (rule stable_log) (simp add: extends_def)

lemma extends_ext_call: "stable (extends P) (ext_call f)"
  by (rule stable_ext_call) (simp add: extends_def)

lemma extends_ext_read: "stable (extends P) (ext_read f)"
  by (rule stable_ext_read) (rule extends_reflp)

lemma extends_modify: "stable (extends P) (modify_self f)"
  by (rule stable_modify) (simp add: extends_def)

lemma extends_hasattr: "P (HasAttr name) \<Longrightarrow> stable (extends P) (hasattr name attr)"
  by (intro stable_hasattr extends_reflp extends_transp extends_log)

lemma extends_getattr: "P (GetAttr name) \<Longrightarrow> stable (extends P) (getattr tn name attr)"
  by (intro stable_getattr extends_reflp extends_transp extends_log)

lemma extends_invoke:
  "P (GetAttr name) \<Longrightarrow> P (Call name args kwargs)
     \<Longrightarrow> stable (extends P) (invoke tn name args kwargs meth)"
  by (intro stable_invoke extends_reflp extends_transp extends_log extends_ext_call)

lemmas extends_rules =
  stable_bind stable_then stable_try stable_for_each stable_return stable_raise stable_lift
  stable_get_self extends_modify extends_ext_call extends_ext_read extends_reflp extends_transp

lemma extends_mono:
  assumes "stable (extends P) m" and "\<And>ev. P ev \<Longrightarrow> Q ev"
  shows "stable (extends Q) m"
proof (unfold stable_def, intro allI)
  fix s
  from stableD [OF assms(1), of s] obtain evs where
    "trace (snd (snd (m s))) = trace (snd s) @ evs" "list_all P evs"
    by (auto simp: extends_def)
  moreover from this assms(2) have "list_all Q evs" by (auto simp: list_all_iff)
  ultimately show "extends Q s (snd (m s))" unfolding extends_def by blast
qed

lemma extendsD:
  "stable (extends P) m \<Longrightarrow> \<exists>rest. trace (snd (snd (m s))) = trace (snd s) @ rest \<and> list_all P rest"
  using stableD [of "extends P" m s] by (simp add: extends_def)

lemma analytics_step_extends:
  "stable (extends (touches_only [''get_memory_analytics''])) (analytics_step m)"
  unfolding analytics_step_def
  by (intro extends_rules stable_if extends_hasattr extends_invoke)
     (simp_all add: touches_only_def)

lemma search_done_extends: "stable (extends P) search_done"
  unfolding search_done_def by (intro extends_rules)

lemma search_tail_trace:
  "\<exists>rest. trace (snd (snd (py_then (analytics_step m) search_done s))) = trace (snd s) @ rest
          \<and> list_all (touches_only [''get_memory_analytics'']) rest"
  by (intro extendsD stable_then extends_transp analytics_step_extends search_done_extends)

lemma search_memories_guarded:
  assumes "search_component.memory_instance c = Some m" and "is_truthy m"
    and "search_query c = Some q" and "q \<noteq> []"
  shows "search_memories rt (c, w) =
           try_except (search_try rt m q)
             (\<lambda>e. search_fail (''Error searching memories: '' @ exc_text e)) (c, w)"
  using assms by (simp add: search_memories_def py_bind_def get_self_def)

lemma search_memories_world:
  assumes "search_component.memory_instance c = Some m" and "is_truthy m"
    and "search_query c = Some q" and "q \<noteq> []"
  shows "snd (snd (search_memories rt (c, w))) = snd (snd (search_try rt m q (c, w)))"
  unfolding search_memories_guarded [OF assms]
  by (simp add: try_except_def search_fail_world split: prod.splits sum.splits)

lemma search_try_semantic:
  assumes "semantic_search c" and "mem_search_memories_semantic m = Some f"
  shows "search_try rt m q (c, w) =
           py_then (semantic_branch rt m q (parse_list (memory_types c)))
             (py_then (analytics_step m) search_done)
             (c, w\<lparr>trace := trace w @ [HasAttr ''search_memories_semantic'']\<rparr>)"
  using assms
  by (simp add: search_try_def Let_def py_bind_apply get_self_apply hasattr_apply py_then_def)

lemma search_try_keyword:
  assumes "\<not> (semantic_search c \<and> mem_search_memories_semantic m \<noteq> None)"
  shows "search_try rt m q (c, w) =
           py_then (keyword_branch rt m q (parse_list (memory_types c)))
             (py_then (analytics_step m) search_done)
             (c, w\<lparr>trace := trace w @
                    (if semantic_search c then [HasAttr ''search_memories_semantic''] else [])\<rparr>)"
  using assms
  by (auto simp: search_try_def Let_def py_bind_apply get_self_apply hasattr_apply py_then_def
        py_return_def)

lemma then_tail_trace:
  assumes "snd (snd (branch s)) = w1"
  shows "\<exists>rest. trace (snd (snd (py_then branch (py_then (analytics_step m) search_done) s))) =
                  trace w1 @ rest
               \<and> list_all (touches_only [''get_memory_analytics'']) rest"
proof (cases "fst (branch s)")
  case (Inl e)
  with assms have "snd (snd (py_then branch (py_then (analytics_step m) search_done) s)) = w1"
    by (simp add: py_then_world)
  then show ?thesis by simp
next
  case (Inr x)
  with assms have "snd (snd (py_then branch (py_then (analytics_step m) search_done) s)) =
      snd (snd (py_then (analytics_step m) search_done (snd (branch s))))"
    by (simp add: py_then_world)
  with search_tail_trace [of m "snd (branch s)"] assms show ?thesis by simp
qed

lemma then_raise_world:
  assumes "fst (branch s) = Inl e"
  shows "snd (snd (py_then branch k s)) = snd (snd (branch s))"
  using assms by (simp add: py_then_world)

section \<open>What the memory node does to the world\<close>

lemma process_try_extends:
  "stable (extends (\<lambda>ev. on_instance ev \<and> touches_only touched_members ev)) (process_try m msg)"
  unfolding process_try_def Let_def
  by (intro extends_rules stable_if extends_invoke extends_getattr)
     (simp_all add: touches_only_def touched_members_def listed_members_def on_instance_def)

lemma set_status_extends: "stable (extends P) (set_status msg)"
  unfolding set_status_def by (rule extends_modify)

lemma process_message_extends:
  "stable (extends (\<lambda>ev. on_instance ev \<and> touches_only touched_members ev)) process_message"
  unfolding process_message_def
  by (intro extends_rules stable_if stable_case_option process_try_extends set_status_extends)

lemma process_message_returns: "\<exists>s'. process_message s = (Inr (), s')"
proof -
  obtain c w where s: "s = (c, w)" by (cases s)
  have h: "\<And>m msg. \<exists>x s'. try_except (process_try m msg)
             (\<lambda>e. set_status (''Error processing message: '' @ exc_text e)) (c, w) = (Inr x, s')"
    by (rule try_except_returns) (simp add: set_status_def modify_self_def split: prod.splits)
  show ?thesis
    unfolding s process_message_def
    using h by (auto simp: py_bind_apply get_self_apply py_return_def split: option.splits)
qed

lemma process_try_keeps_instance:
  "stable (\<lambda>s s'. priv_memory_instance (fst s') = priv_memory_instance (fst s)) (process_try m msg)"
  unfolding process_try_def Let_def
  by (intro keeps_rules stable_if) simp_all

lemma process_message_keeps_instance:
  "stable (\<lambda>s s'. priv_memory_instance (fst s') = priv_memory_instance (fst s)) process_message"
  unfolding process_message_def set_status_def
  by (intro keeps_rules stable_if stable_case_option process_try_keeps_instance) simp_all

lemma message_step_returns:
  "\<exists>s'. (if b then process_message else py_return ()) s = (Inr (), s')"
  using process_message_returns [of s] by (simp add: py_return_def)

lemma message_step_extends:
  "stable (extends (\<lambda>ev. on_instance ev \<and> touches_only touched_members ev))
     (if b then process_message else py_return ())"
  by (intro stable_if process_message_extends stable_return extends_reflp)

lemma message_step_keeps_instance:
  "stable (\<lambda>s s'. priv_memory_instance (fst s') = priv_memory_instance (fst s))
     (if b then process_message else py_return ())"
  by (intro stable_if process_message_keeps_instance stable_return keeps_reflp)

text \<open>The end of \<open>build_memory\<close>, from the state \<open>(c1, w1)\<close> in which the instance is set.\<close>

lemma build_finish:
  "\<exists>c2 w2 rest.
      py_then (if b then process_message else py_return ())
        (py_bind get_self (\<lambda>c. py_return (priv_memory_instance c))) (c1, w1)
        = (Inr (priv_memory_instance c1), (c2, w2))
      \<and> priv_memory_instance c2 = priv_memory_instance c1
      \<and> trace w2 = trace w1 @ rest
      \<and> list_all (\<lambda>ev. on_instance ev \<and> touches_only touched_members ev) rest"
proof -
  let ?step = "if b then process_message else py_return ()"
  obtain c2 w2 where run: "?step (c1, w1) = (Inr (), (c2, w2))"
    using message_step_returns [of b "(c1, w1)"] by (metis prod.collapse)
  have keep: "priv_memory_instance c2 = priv_memory_instance c1"
    using stableD [OF message_step_keeps_instance, of b "(c1, w1)"] run by simp
  obtain rest where tr: "trace w2 = trace w1 @ rest"
    and ok: "list_all (\<lambda>ev. on_instance ev \<and> touches_only touched_members ev) rest"
    using extendsD [OF message_step_extends, of b "(c1, w1)"] run by auto
  have "py_then ?step (py_bind get_self (\<lambda>c. py_return (priv_memory_instance c))) (c1, w1)
          = (Inr (priv_memory_instance c1), (c2, w2))"
    using run keep by (simp add: py_then_def py_bind_apply get_self_apply py_return_def)
  with keep tr ok show ?thesis by blast
qed

lemma build_try_existing:
  assumes "instance_truthy (existing_memory c)"
  shows "build_try (Inr create) (c, w) =
           py_then (if text_truthy (message c) then process_message else py_return ())
             (py_bind get_self (\<lambda>c. py_return (priv_memory_instance c)))
             (c\<lparr>priv_memory_instance := existing_memory c\<rparr>, w)"
  using assms
  by (simp add: build_try_def py_bind_apply get_self_apply py_lift_def py_then_def modify_self_def)

lemma build_try_created:
  assumes "\<not> instance_truthy (existing_memory c)"
    and "create (memory_component.session_id c) (memory_component.user_id c) (extract_memories c)
           (engine_state w) = (Inr inst, s')"
  shows "build_try (Inr create) (c, w) =
           py_then (if text_truthy (message c) then process_message else py_return ())
             (py_bind get_self (\<lambda>c. py_return (priv_memory_instance c)))
             (c\<lparr>priv_memory_instance := Some inst\<rparr>,
              w\<lparr>trace := trace w @
                     [FunCall ''create_eliza_memory'' []
                        [(''session_id'', AStr (memory_component.session_id c)),
                         (''user_id'', AStr (memory_component.user_id c)),
                         (''memory_extraction'', ABool (extract_memories c))]],
                engine_state := s'\<rparr>)"
  using assms
  by (simp add: build_try_def py_bind_apply get_self_apply py_lift_def py_then_def modify_self_def
        log_event_def ext_call_def)

lemma build_try_create_raises:
  assumes "\<not> instance_truthy (existing_memory c)"
    and "create (memory_component.session_id c) (memory_component.user_id c) (extract_memories c)
           (engine_state w) = (Inl e, s')"
  shows "build_try (Inr create) (c, w) =
           (Inl e,
            (c, w\<lparr>trace := trace w @
                     [FunCall ''create_eliza_memory'' []
                        [(''session_id'', AStr (memory_component.session_id c)),
                         (''user_id'', AStr (memory_component.user_id c)),
                         (''memory_extraction'', ABool (extract_memories c))]],
                engine_state := s'\<rparr>))"
  using assms
  by (simp add: build_try_def py_bind_apply get_self_apply py_lift_def py_then_def modify_self_def
        log_event_def ext_call_def)

section \<open>What the store node does to the world\<close>

lemma store_finish_world: "snd (snd (store_finish rt cont tgs (k, w))) = w"
  by (simp add: store_finish_def py_defs split: sum.splits option.splits)

lemma add_memory_branch_world:
  assumes "mem_add_memory m = Some f"
    and "f cont (memory_type k) (dict_val (store_component.metadata k)) tgs (engine_state w) = (r, s')"
  shows "snd (snd (add_memory_branch m cont tgs (k, w))) =
           w\<lparr>engine_state := s',
             trace := trace w @
               [GetAttr ''add_memory'',
                Call ''add_memory'' []
                  [(''content'', AStr cont), (''memory_type'', AStr (memory_type k)),
                   (''metadata'', AVal (dict_val (store_component.metadata k))), (''tags'', AStrList tgs)]]
               @ (case r of
                    Inl e \<Rightarrow> []
                  | Inr new_id \<Rightarrow>
                      HasAttr ''memory_store''
                      # (if mem_memory_store m \<noteq> None then [GetAttr ''memory_store''] else []))\<rparr>"
  using assms
  by (cases r) (auto simp: add_memory_branch_def py_defs Let_def split: sum.splits option.splits list.splits)

lemma store_memory_branch_world:
  assumes "mem_store_memory m = Some g"
    and "g (store_component.user_id k) cont (memory_type k) (store_component.session_id k)
           (dict_val (store_component.metadata k)) tgs (relevance_score k) (engine_state w) = (r, s')"
  shows "snd (snd (store_memory_branch rt m cont tgs (k, w))) =
           w\<lparr>engine_state := s',
             trace := trace w @
               [GetAttr ''store_memory'',
                Call ''store_memory'' []
                  [(''user_id'', AStr (store_component.user_id k)), (''content'', AStr cont),
                   (''memory_type'', AStr (memory_type k)),
                   (''session_id'', AStr (store_component.session_id k)),
                   (''metadata'', AVal (dict_val (store_component.metadata k))), (''tags'', AStrList tgs),
                   (''relevance_score'', AVal (relevance_score k))]]\<rparr>"
  using assms
  by (cases r) (auto simp: store_memory_branch_def py_defs split: sum.splits option.splits stored.splits)

lemma store_finish_world': "snd (snd (store_finish rt cont tgs s)) = snd s"
  by (cases s) (simp add: store_finish_world)

lemma store_fail_world: "snd (snd (store_fail msg s)) = snd s"
  by (cases s) (simp add: store_fail_returns)

lemma store_memory_guarded:
  assumes "store_component.memory_instance k = Some m" and "is_truthy m"
    and "content k = Some cont" and "cont \<noteq> []"
  shows "store_memory rt (k, w) =
           try_except (store_try rt m cont)
             (\<lambda>e. store_fail (''Error storing memory: '' @ exc_text e)) (k, w)"
  using assms by (simp add: store_memory_def py_bind_def get_self_def)

section \<open>Claim C8: the handle of the store node\<close>

text \<open>
  Claim C8. \<open>ElizaMemoryStoreComponent.get_updated_memory_instance\<close> always returns the
  very memory instance that was supplied as the \<open>memory_instance\<close> input: it returns
  normally, whatever \<open>store_memory\<close> met, and its value is the input itself, which the
  node still holds afterwards.
\<close>

theorem C8_same_handle:
  "fst (get_updated_memory_instance rt (c, w)) = Inr (store_component.memory_instance c)
   \<and> store_component.memory_instance (fst (snd (get_updated_memory_instance rt (c, w))))
       = store_component.memory_instance c"
proof -
  obtain d c' w' where sm: "store_memory rt (c, w) = (Inr d, (c', w'))"
    using store_memory_returns [of rt "(c, w)"] by (metis prod.collapse)
  have "store_component.memory_instance (fst (snd (store_memory rt (c, w)))) = store_component.memory_instance c"
    using stableD [OF store_memory_keeps_instance, of rt "(c, w)"] by simp
  with sm have keep: "store_component.memory_instance c' = store_component.memory_instance c" by simp
  show ?thesis
    using sm keep by (simp add: get_updated_memory_instance_def py_bind_def get_self_def py_return_def)
qed

section \<open>Claim C9: the guards of the search and the store node\<close>

text \<open>
  Claim C9. \<open>ElizaMemorySearchComponent.search_memories\<close> with a falsy memory instance
  or a falsy search query, and \<open>ElizaMemoryStoreComponent.store_memory\<close> with a falsy
  memory instance or a falsy content, return their empty envelope (the empty list, a
  \<open>Data\<close> with an empty payload) and set a status that says which input is missing; the
  world is left as it was, so nothing was probed or called on the memory object.
\<close>

theorem C9_guards:
  "(\<not> instance_truthy (search_component.memory_instance c) \<longrightarrow>
      search_memories rt (c, w) =
        (Inr [], (c\<lparr>search_component.status := ''No memory instance provided''\<rparr>, w)))
   \<and> (instance_truthy (search_component.memory_instance c) \<and> \<not> text_truthy (search_query c) \<longrightarrow>
      search_memories rt (c, w) =
        (Inr [], (c\<lparr>search_component.status := ''No search query provided''\<rparr>, w)))
   \<and> (\<not> instance_truthy (store_component.memory_instance k) \<longrightarrow>
      store_memory rt (k, w) =
        (Inr (Data []), (k\<lparr>priv_storage_status := ''Error: No memory instance provided''\<rparr>, w)))
   \<and> (instance_truthy (store_component.memory_instance k) \<and> \<not> text_truthy (content k) \<longrightarrow>
      store_memory rt (k, w) =
        (Inr (Data []), (k\<lparr>priv_storage_status := ''Error: No content provided''\<rparr>, w)))"
  by (auto simp: search_memories_def store_memory_def instance_truthy_def text_truthy_def
        py_bind_def get_self_def search_fail_returns store_fail_returns
      split: option.splits)

theorem C9_guards_witness:
  "search_memories scenario_runtime (search_node None (Some ''tea''), fresh_world) =
     (Inr [], ((search_node None (Some ''tea''))\<lparr>search_component.status := ''No memory instance provided''\<rparr>,
               fresh_world))
   \<and> search_memories scenario_runtime (search_node (Some full_engine) (Some []), fresh_world) =
     (Inr [], ((search_node (Some full_engine) (Some []))\<lparr>search_component.status := ''No search query provided''\<rparr>,
               fresh_world))
   \<and> store_memory scenario_runtime (store_node (Some (full_engine\<lparr>is_truthy := False\<rparr>)) (Some ''likes tea''), fresh_world) =
     (Inr (Data []),
      ((store_node (Some (full_engine\<lparr>is_truthy := False\<rparr>)) (Some ''likes tea''))
         \<lparr>priv_storage_status := ''Error: No memory instance provided''\<rparr>, fresh_world))
   \<and> store_memory scenario_runtime (store_node (Some full_engine) None, fresh_world) =
     (Inr (Data []),
      ((store_node (Some full_engine) None)\<lparr>priv_storage_status := ''Error: No content provided''\<rparr>,
       fresh_world))"
proof -
  have a: "\<not> instance_truthy (search_component.memory_instance (search_node None (Some ''tea'')))"
    by (simp add: instance_truthy_def search_node_def)
  have b: "instance_truthy (search_component.memory_instance (search_node (Some full_engine) (Some [])))
           \<and> \<not> text_truthy (search_query (search_node (Some full_engine) (Some [])))"
    by (simp add: instance_truthy_def text_truthy_def search_node_def full_engine_def)
  have c: "\<not> instance_truthy (store_component.memory_instance
             (store_node (Some (full_engine\<lparr>is_truthy := False\<rparr>)) (Some ''likes tea'')))"
    by (simp add: instance_truthy_def store_node_def)
  have d: "instance_truthy (store_component.memory_instance (store_node (Some full_engine) None))
           \<and> \<not> text_truthy (content (store_node (Some full_engine) None))"
    by (simp add: instance_truthy_def text_truthy_def store_node_def full_engine_def)
  show ?thesis
    using a b c d
      C9_guards [of "search_node None (Some ''tea'')" scenario_runtime fresh_world
                    "store_node (Some (full_engine\<lparr>is_truthy := False\<rparr>)) (Some ''likes tea'')"]
      C9_guards [of "search_node (Some full_engine) (Some [])" scenario_runtime fresh_world
                    "store_node (Some full_engine) None"]
    by blast
qed

section \<open>Claim C2: the dispatch of the store node\<close>

text \<open>
  Claim C2. For every invocation of \<open>ElizaMemoryStoreComponent.store_memory\<close> with a
  memory instance and a non-empty content: if the instance has \<open>add_memory\<close>, that method
  is called with the content, the memory type, the metadata and the parsed tags, and
  nothing else is called on the instance; otherwise, if it has \<open>store_memory\<close>, that
  method is called with user id, content, memory type, session id, metadata, tags and
  relevance score; if it has neither, the storage status becomes
  \<open>Error: Memory instance does not support memory storage\<close> and a \<open>Data\<close> with an empty
  payload is returned after the two probes, with no call and the engine's state untouched.
\<close>

theorem C2_store_dispatch:
  "store_component.memory_instance k = Some m \<and> is_truthy m \<and> content k = Some cont \<and> cont \<noteq> [] \<longrightarrow>
     (\<forall>f. mem_add_memory m = Some f \<longrightarrow>
        (\<exists>rest. trace (snd (snd (store_memory rt (k, w)))) =
                  trace w @
                    [HasAttr ''add_memory'', GetAttr ''add_memory'',
                     Call ''add_memory'' []
                       [(''content'', AStr cont), (''memory_type'', AStr (memory_type k)),
                        (''metadata'', AVal (dict_val (store_component.metadata k))),
                        (''tags'', AStrList (parse_list (store_component.tags k)))]] @ rest
                \<and> \<not> list_ex is_call rest)
        \<and> engine_state (snd (snd (store_memory rt (k, w)))) =
            snd (f cont (memory_type k) (dict_val (store_component.metadata k))
                   (parse_list (store_component.tags k)) (engine_state w)))
   \<and> (\<forall>g. mem_add_memory m = None \<and> mem_store_memory m = Some g \<longrightarrow>
        trace (snd (snd (store_memory rt (k, w)))) =
          trace w @
            [HasAttr ''add_memory'', HasAttr ''store_memory'', GetAttr ''store_memory'',
             Call ''store_memory'' []
               [(''user_id'', AStr (store_component.user_id k)), (''content'', AStr cont),
                (''memory_type'', AStr (memory_type k)),
                (''session_id'', AStr (store_component.session_id k)),
                (''metadata'', AVal (dict_val (store_component.metadata k))),
                (''tags'', AStrList (parse_list (store_component.tags k))),
                (''relevance_score'', AVal (relevance_score k))]]
        \<and> engine_state (snd (snd (store_memory rt (k, w)))) =
            snd (g (store_component.user_id k) cont (memory_type k) (store_component.session_id k)
                   (dict_val (store_component.metadata k)) (parse_list (store_component.tags k))
                   (relevance_score k) (engine_state w)))
   \<and> (mem_add_memory m = None \<and> mem_store_memory m = None \<longrightarrow>
        store_memory rt (k, w) =
          (Inr (Data []),
           (k\<lparr>priv_storage_status := ''Error: Memory instance does not support memory storage''\<rparr>,
            w\<lparr>trace := trace w @ [HasAttr ''add_memory'', HasAttr ''store_memory'']\<rparr>)))"
proof (intro impI, elim conjE)
  assume inst: "store_component.memory_instance k = Some m" and tr: "is_truthy m"
    and co: "content k = Some cont" and ne: "cont \<noteq> []"
  note guarded = store_memory_guarded [OF inst tr co ne, of rt w]
  let ?tgs = "parse_list (store_component.tags k)"
  let ?w1 = "w\<lparr>trace := trace w @ [HasAttr ''add_memory'']\<rparr>"
  let ?w2 = "w\<lparr>trace := trace w @ [HasAttr ''add_memory'', HasAttr ''store_memory'']\<rparr>"
  have add: "\<forall>f. mem_add_memory m = Some f \<longrightarrow>
        (\<exists>rest. trace (snd (snd (store_memory rt (k, w)))) =
                  trace w @
                    [HasAttr ''add_memory'', GetAttr ''add_memory'',
                     Call ''add_memory'' []
                       [(''content'', AStr cont), (''memory_type'', AStr (memory_type k)),
                        (''metadata'', AVal (dict_val (store_component.metadata k))),
                        (''tags'', AStrList ?tgs)]] @ rest
                \<and> \<not> list_ex is_call rest)
        \<and> engine_state (snd (snd (store_memory rt (k, w)))) =
            snd (f cont (memory_type k) (dict_val (store_component.metadata k)) ?tgs (engine_state w))"
  proof (intro allI impI)
    fix f assume hf: "mem_add_memory m = Some f"
    obtain r s' where call:
      "f cont (memory_type k) (dict_val (store_component.metadata k)) ?tgs (engine_state ?w1) = (r, s')"
      by (cases "f cont (memory_type k) (dict_val (store_component.metadata k)) ?tgs (engine_state ?w1)")
    have body: "store_try rt m cont (k, w) =
                  py_then (add_memory_branch m cont ?tgs) (store_finish rt cont ?tgs) (k, ?w1)"
      using hf by (simp add: store_try_def Let_def py_defs)
    have world: "snd (snd (store_memory rt (k, w))) = snd (snd (add_memory_branch m cont ?tgs (k, ?w1)))"
      unfolding guarded try_except_world body py_then_world
      by (simp add: store_fail_world store_finish_world' py_then_world split: sum.splits)
    show "(\<exists>rest. trace (snd (snd (store_memory rt (k, w)))) =
                  trace w @
                    [HasAttr ''add_memory'', GetAttr ''add_memory'',
                     Call ''add_memory'' []
                       [(''content'', AStr cont), (''memory_type'', AStr (memory_type k)),
                        (''metadata'', AVal (dict_val (store_component.metadata k))),
                        (''tags'', AStrList ?tgs)]] @ rest
                \<and> \<not> list_ex is_call rest)
        \<and> engine_state (snd (snd (store_memory rt (k, w)))) =
            snd (f cont (memory_type k) (dict_val (store_component.metadata k)) ?tgs (engine_state w))"
      unfolding world add_memory_branch_world [OF hf call]
      using call by (cases r) auto
  qed
  have store: "\<forall>g. mem_add_memory m = None \<and> mem_store_memory m = Some g \<longrightarrow>
        trace (snd (snd (store_memory rt (k, w)))) =
          trace w @
            [HasAttr ''add_memory'', HasAttr ''store_memory'', GetAttr ''store_memory'',
             Call ''store_memory'' []
               [(''user_id'', AStr (store_component.user_id k)), (''content'', AStr cont),
                (''memory_type'', AStr (memory_type k)),
                (''session_id'', AStr (store_component.session_id k)),
                (''metadata'', AVal (dict_val (store_component.metadata k))),
                (''tags'', AStrList ?tgs),
                (''relevance_score'', AVal (relevance_score k))]]
        \<and> engine_state (snd (snd (store_memory rt (k, w)))) =
            snd (g (store_component.user_id k) cont (memory_type k) (store_component.session_id k)
                   (dict_val (store_component.metadata k)) ?tgs (relevance_score k) (engine_state w))"
  proof (intro allI impI, elim conjE)
    fix g assume na: "mem_add_memory m = None" and hg: "mem_store_memory m = Some g"
    obtain r s' where call:
      "g (store_component.user_id k) cont (memory_type k) (store_component.session_id k)
         (dict_val (store_component.metadata k)) ?tgs (relevance_score k) (engine_state ?w2) = (r, s')"
      by (cases "g (store_component.user_id k) cont (memory_type k) (store_component.session_id k)
         (dict_val (store_component.metadata k)) ?tgs (relevance_score k) (engine_state ?w2)")
    have body: "store_try rt m cont (k, w) =
                  py_then (store_memory_branch rt m cont ?tgs) (store_finish rt cont ?tgs) (k, ?w2)"
      using na hg by (simp add: store_try_def Let_def py_defs)
    have world: "snd (snd (store_memory rt (k, w))) = snd (snd (store_memory_branch rt m cont ?tgs (k, ?w2)))"
      unfolding guarded try_except_world body py_then_world
      by (simp add: store_fail_world store_finish_world' py_then_world split: sum.splits)
    show "trace (snd (snd (store_memory rt (k, w)))) =
          trace w @
            [HasAttr ''add_memory'', HasAttr ''store_memory'', GetAttr ''store_memory'',
             Call ''store_memory'' []
               [(''user_id'', AStr (store_component.user_id k)), (''content'', AStr cont),
                (''memory_type'', AStr (memory_type k)),
                (''session_id'', AStr (store_component.session_id k)),
                (''metadata'', AVal (dict_val (store_component.metadata k))),
                (''tags'', AStrList ?tgs),
                (''relevance_score'', AVal (relevance_score k))]]
        \<and> engine_state (snd (snd (store_memory rt (k, w)))) =
            snd (g (store_component.user_id k) cont (memory_type k) (store_component.session_id k)
                   (dict_val (store_component.metadata k)) ?tgs (relevance_score k) (engine_state w))"
      unfolding world store_memory_branch_world [OF hg call]
      using call by simp
  qed
  have neither: "mem_add_memory m = None \<and> mem_store_memory m = None \<longrightarrow>
        store_memory rt (k, w) =
          (Inr (Data []),
           (k\<lparr>priv_storage_status := ''Error: Memory instance does not support memory storage''\<rparr>, ?w2))"
    unfolding guarded
    by (simp add: store_try_def Let_def py_defs store_fail_def)
  from add store neither
  show "(\<forall>f. mem_add_memory m = Some f \<longrightarrow>
        (\<exists>rest. trace (snd (snd (store_memory rt (k, w)))) =
                  trace w @
                    [HasAttr ''add_memory'', GetAttr ''add_memory'',
                     Call ''add_memory'' []
                       [(''content'', AStr cont), (''memory_type'', AStr (memory_type k)),
                        (''metadata'', AVal (dict_val (store_component.metadata k))),
                        (''tags'', AStrList (parse_list (store_component.tags k)))]] @ rest
                \<and> \<not> list_ex is_call rest)
        \<and> engine_state (snd (snd (store_memory rt (k, w)))) =
            snd (f cont (memory_type k) (dict_val (store_component.metadata k))
                   (parse_list (store_component.tags k)) (engine_state w)))
   \<and> (\<forall>g. mem_add_memory m = None \<and> mem_store_memory m = Some g \<longrightarrow>
        trace (snd (snd (store_memory rt (k, w)))) =
          trace w @
            [HasAttr ''add_memory'', HasAttr ''store_memory'', GetAttr ''store_memory'',
             Call ''store_memory'' []
               [(''user_id'', AStr (store_component.user_id k)), (''content'', AStr cont),
                (''memory_type'', AStr (memory_type k)),
                (''session_id'', AStr (store_component.session_id k)),
                (''metadata'', AVal (dict_val (store_component.metadata k))),
                (''tags'', AStrList (parse_list (store_component.tags k))),
                (''relevance_score'', AVal (relevance_score k))]]
        \<and> engine_state (snd (snd (store_memory rt (k, w)))) =
            snd (g (store_component.user_id k) cont (memory_type k) (store_component.session_id k)
                   (dict_val (store_component.metadata k)) (parse_list (store_component.tags k))
                   (relevance_score k) (engine_state w)))
   \<and> (mem_add_memory m = None \<and> mem_store_memory m = None \<longrightarrow>
        store_memory rt (k, w) =
          (Inr (Data []),
           (k\<lparr>priv_storage_status := ''Error: Memory instance does not support memory storage''\<rparr>,
            w\<lparr>trace := trace w @ [HasAttr ''add_memory'', HasAttr ''store_memory'']\<rparr>)))"
    by blast
qed

theorem C2_store_dispatch_witness:
  "(\<exists>rest. trace (snd (snd (store_memory scenario_runtime
                (store_node (Some full_engine) (Some ''likes tea''), fresh_world)))) =
             [HasAttr ''add_memory'', GetAttr ''add_memory'',
              Call ''add_memory'' []
                [(''content'', AStr ''likes tea''), (''memory_type'', AStr ''general''),
                 (''metadata'', AVal PNone), (''tags'', AStrList [''tea'', ''drinks''])]] @ rest
           \<and> \<not> list_ex is_call rest)
   \<and> engine_state (snd (snd (store_memory scenario_runtime
        (store_node (Some full_engine) (Some ''likes tea''), fresh_world)))) = 1
   \<and> trace (snd (snd (store_memory scenario_runtime
        (store_node (Some (full_engine\<lparr>mem_add_memory := None\<rparr>)) (Some ''likes tea''), fresh_world)))) =
       [HasAttr ''add_memory'', HasAttr ''store_memory'', GetAttr ''store_memory'',
        Call ''store_memory'' []
          [(''user_id'', AStr ''anonymous''), (''content'', AStr ''likes tea''),
           (''memory_type'', AStr ''general''), (''session_id'', AStr ''default_session''),
           (''metadata'', AVal PNone), (''tags'', AStrList [''tea'', ''drinks'']),
           (''relevance_score'', AVal (POpaque True))]]
   \<and> engine_state (snd (snd (store_memory scenario_runtime
        (store_node (Some (full_engine\<lparr>mem_add_memory := None\<rparr>)) (Some ''likes tea''), fresh_world)))) = 1
   \<and> store_memory scenario_runtime (store_node (Some bare_engine) (Some ''likes tea''), fresh_world) =
       (Inr (Data []),
        ((store_node (Some bare_engine) (Some ''likes tea''))
           \<lparr>priv_storage_status := ''Error: Memory instance does not support memory storage''\<rparr>,
         fresh_world\<lparr>trace := [HasAttr ''add_memory'', HasAttr ''store_memory'']\<rparr>))"
proof -
  have tags: "parse_list (Some ''tea, drinks'') = [''tea'', ''drinks'']"
    by code_simp
  let ?f = "\<lambda>(cont :: string) (mt :: string) (md :: bool pyval) (tgs :: string list) (n :: nat).
              (Inr (PStr ''m1'') :: pyexc + bool pyval, Suc n)"
  let ?g = "\<lambda>(uid :: string) (cont :: string) (mt :: string) (sid :: string) (md :: bool pyval)
              (tgs :: string list) (score :: bool pyval) (n :: nat).
              (Inr (StoredValue (PStr ''m3'')) :: pyexc + bool stored, Suc n)"
  have a: "mem_add_memory full_engine = Some ?f"
    by (simp add: full_engine_def)
  have b: "mem_add_memory (full_engine\<lparr>mem_add_memory := None\<rparr>) = None
           \<and> mem_store_memory (full_engine\<lparr>mem_add_memory := None\<rparr>) = Some ?g"
    by (simp add: full_engine_def)
  have c: "mem_add_memory bare_engine = None \<and> mem_store_memory bare_engine = None"
    by (simp add: bare_engine_def)
  have first:
    "(\<exists>rest. trace (snd (snd (store_memory scenario_runtime
                (store_node (Some full_engine) (Some ''likes tea''), fresh_world)))) =
             [HasAttr ''add_memory'', GetAttr ''add_memory'',
              Call ''add_memory'' []
                [(''content'', AStr ''likes tea''), (''memory_type'', AStr ''general''),
                 (''metadata'', AVal PNone), (''tags'', AStrList [''tea'', ''drinks''])]] @ rest
           \<and> \<not> list_ex is_call rest)
     \<and> engine_state (snd (snd (store_memory scenario_runtime
          (store_node (Some full_engine) (Some ''likes tea''), fresh_world)))) = 1"
    using a C2_store_dispatch [of "store_node (Some full_engine) (Some ''likes tea'')" full_engine
        "''likes tea''" scenario_runtime fresh_world]
    by (simp add: store_node_def full_engine_def fresh_world_def dict_val_def tags)
  have second:
    "trace (snd (snd (store_memory scenario_runtime
        (store_node (Some (full_engine\<lparr>mem_add_memory := None\<rparr>)) (Some ''likes tea''), fresh_world)))) =
       [HasAttr ''add_memory'', HasAttr ''store_memory'', GetAttr ''store_memory'',
        Call ''store_memory'' []
          [(''user_id'', AStr ''anonymous''), (''content'', AStr ''likes tea''),
           (''memory_type'', AStr ''general''), (''session_id'', AStr ''default_session''),
           (''metadata'', AVal PNone), (''tags'', AStrList [''tea'', ''drinks'']),
           (''relevance_score'', AVal (POpaque True))]]
     \<and> engine_state (snd (snd (store_memory scenario_runtime
        (store_node (Some (full_engine\<lparr>mem_add_memory := None\<rparr>)) (Some ''likes tea''), fresh_world)))) = 1"
    using b C2_store_dispatch [of "store_node (Some (full_engine\<lparr>mem_add_memory := None\<rparr>)) (Some ''likes tea'')"
        "full_engine\<lparr>mem_add_memory := None\<rparr>" "''likes tea''" scenario_runtime fresh_world]
    by (simp add: store_node_def full_engine_def fresh_world_def dict_val_def tags)
  have third:
    "store_memory scenario_runtime (store_node (Some bare_engine) (Some ''likes tea''), fresh_world) =
       (Inr (Data []),
        ((store_node (Some bare_engine) (Some ''likes tea''))
           \<lparr>priv_storage_status := ''Error: Memory instance does not support memory storage''\<rparr>,
         fresh_world\<lparr>trace := [HasAttr ''add_memory'', HasAttr ''store_memory'']\<rparr>))"
    using c C2_store_dispatch [of "store_node (Some bare_engine) (Some ''likes tea'')" bare_engine
        "''likes tea''" scenario_runtime fresh_world]
    by (simp add: store_node_def bare_engine_def fresh_world_def)
  from first second third show ?thesis by blast
qed

section \<open>Claim C1: the dispatch of the search node\<close>

text \<open>
  Claim C1, as stated: for every invocation of
  \<open>ElizaMemorySearchComponent.search_memories\<close> the semantic branch is taken exactly
  when the \<open>semantic_search\<close> input is true and the memory instance has
  \<open>search_memories_semantic\<close>, and the keyword branch in every other case.

  The two guards come first. With an empty query the node returns before the dispatch,
  although the input is true and the instance has the method; and with no memory instance
  at all neither branch is taken.
\<close>

theorem C1_counterexample:
  "semantic_search (search_node (Some full_engine) (Some []))
   \<and> search_component.memory_instance (search_node (Some full_engine) (Some [])) = Some full_engine
   \<and> mem_search_memories_semantic full_engine \<noteq> None
   \<and> trace (snd (snd (search_memories scenario_runtime
        (search_node (Some full_engine) (Some []), fresh_world)))) = []
   \<and> trace (snd (snd (search_memories scenario_runtime
        (search_node None (Some ''tea''), fresh_world)))) = []"
  by (simp add: search_node_def full_engine_def fresh_world_def search_memories_def
        py_bind_apply get_self_apply search_fail_returns)

text \<open>
  Claim C1, amended: for every invocation of \<open>search_memories\<close> with a truthy memory
  instance and a non-empty query, the semantic branch is taken exactly when the
  \<open>semantic_search\<close> input is true and the instance has \<open>search_memories_semantic\<close>:
  the method is probed, read and called with the query, the limit and the parsed memory
  types, and \<open>search_memories\<close> is not touched. In every other case the keyword branch is
  taken: \<open>search_memories\<close> is read on the instance and, when the instance has it, called
  with the query, the parsed memory types and the limit, and \<open>search_memories_semantic\<close>
  is at most probed. After the branch only \<open>get_memory_analytics\<close> is touched.
\<close>

theorem C1_search_dispatch:
  "search_component.memory_instance c = Some m \<and> is_truthy m \<and> search_query c = Some q \<and> q \<noteq> [] \<longrightarrow>
     (\<forall>f. semantic_search c \<and> mem_search_memories_semantic m = Some f \<longrightarrow>
        (\<exists>rest. trace (snd (snd (search_memories rt (c, w)))) =
                  trace w @
                    [HasAttr ''search_memories_semantic'', GetAttr ''search_memories_semantic'',
                     Call ''search_memories_semantic'' [AStr q]
                       [(''limit'', AInt (limit c)),
                        (''memory_types'', AStrList (parse_list (memory_types c)))]] @ rest
                \<and> list_all (touches_only [''get_memory_analytics'']) rest))
   \<and> (\<not> (semantic_search c \<and> mem_search_memories_semantic m \<noteq> None) \<longrightarrow>
        (mem_search_memories m = None \<longrightarrow>
           trace (snd (snd (search_memories rt (c, w)))) =
             trace w @ (if semantic_search c then [HasAttr ''search_memories_semantic''] else [])
               @ [GetAttr ''search_memories''])
        \<and> (\<forall>g. mem_search_memories m = Some g \<longrightarrow>
             (\<exists>rest. trace (snd (snd (search_memories rt (c, w)))) =
                  trace w @ (if semantic_search c then [HasAttr ''search_memories_semantic''] else [])
                    @ [GetAttr ''search_memories'',
                       Call ''search_memories'' [AStr q]
                         [(''memory_types'', AStrList (parse_list (memory_types c))),
                          (''limit'', AInt (limit c))]] @ rest
                \<and> list_all (touches_only [''get_memory_analytics'']) rest)))"
proof (intro impI, elim conjE)
  assume inst: "search_component.memory_instance c = Some m" and tr: "is_truthy m"
    and qu: "search_query c = Some q" and ne: "q \<noteq> []"
  note world = search_memories_world [OF inst tr qu ne, of rt w]
  let ?mts = "parse_list (memory_types c)"
  let ?probe = "if semantic_search c then [HasAttr ''search_memories_semantic''] else []"
  have semantic: "\<exists>rest. trace (snd (snd (search_memories rt (c, w)))) =
                  trace w @
                    [HasAttr ''search_memories_semantic'', GetAttr ''search_memories_semantic'',
                     Call ''search_memories_semantic'' [AStr q]
                       [(''limit'', AInt (limit c)), (''memory_types'', AStrList ?mts)]] @ rest
                \<and> list_all (touches_only [''get_memory_analytics'']) rest"
    if sem: "semantic_search c" and hf: "mem_search_memories_semantic m = Some f" for f
  proof -
    let ?w1 = "w\<lparr>trace := trace w @ [HasAttr ''search_memories_semantic'']\<rparr>"
    note branch = semantic_branch_world [OF hf, of rt q ?mts c ?w1]
    from then_tail_trace [of "semantic_branch rt m q ?mts" "(c, ?w1)", OF branch, of m]
    show ?thesis
      unfolding world search_try_semantic [OF sem hf] by simp
  qed
  have keyword_none: "trace (snd (snd (search_memories rt (c, w)))) =
             trace w @ ?probe @ [GetAttr ''search_memories'']"
    if kw: "\<not> (semantic_search c \<and> mem_search_memories_semantic m \<noteq> None)"
      and none: "mem_search_memories m = None"
  proof -
    let ?s = "(c, w\<lparr>trace := trace w @ ?probe\<rparr>)"
    have "fst (keyword_branch rt m q ?mts ?s) = Inl (no_attribute (type_name m) ''search_memories'')"
      using none by (simp add: keyword_branch_def py_bind_apply get_self_apply invoke_none)
    then have "snd (snd (py_then (keyword_branch rt m q ?mts)
                 (py_then (analytics_step m) search_done) ?s)) =
               snd (snd (keyword_branch rt m q ?mts ?s))"
      by (rule then_raise_world)
    then show ?thesis
      unfolding world search_try_keyword [OF kw]
      using none by (simp add: keyword_branch_world)
  qed
  have keyword_some: "\<exists>rest. trace (snd (snd (search_memories rt (c, w)))) =
                  trace w @ ?probe
                    @ [GetAttr ''search_memories'',
                       Call ''search_memories'' [AStr q]
                         [(''memory_types'', AStrList ?mts), (''limit'', AInt (limit c))]] @ rest
                \<and> list_all (touches_only [''get_memory_analytics'']) rest"
    if kw: "\<not> (semantic_search c \<and> mem_search_memories_semantic m \<noteq> None)"
      and some: "mem_search_memories m = Some g" for g
  proof -
    let ?w1 = "w\<lparr>trace := trace w @ ?probe\<rparr>"
    note branch = keyword_branch_world [of rt m q ?mts c ?w1]
    from then_tail_trace [of "keyword_branch rt m q ?mts" "(c, ?w1)", OF branch, of m] some
    show ?thesis
      unfolding world search_try_keyword [OF kw] by simp
  qed
  from semantic keyword_none keyword_some
  show "(\<forall>f. semantic_search c \<and> mem_search_memories_semantic m = Some f \<longrightarrow>
        (\<exists>rest. trace (snd (snd (search_memories rt (c, w)))) =
                  trace w @
                    [HasAttr ''search_memories_semantic'', GetAttr ''search_memories_semantic'',
                     Call ''search_memories_semantic'' [AStr q]
                       [(''limit'', AInt (limit c)),
                        (''memory_types'', AStrList (parse_list (memory_types c)))]] @ rest
                \<and> list_all (touches_only [''get_memory_analytics'']) rest))
   \<and> (\<not> (semantic_search c \<and> mem_search_memories_semantic m \<noteq> None) \<longrightarrow>
        (mem_search_memories m = None \<longrightarrow>
           trace (snd (snd (search_memories rt (c, w)))) =
             trace w @ (if semantic_search c then [HasAttr ''search_memories_semantic''] else [])
               @ [GetAttr ''search_memories''])
        \<and> (\<forall>g. mem_search_memories m = Some g \<longrightarrow>
             (\<exists>rest. trace (snd (snd (search_memories rt (c, w)))) =
                  trace w @ (if semantic_search c then [HasAttr ''search_memories_semantic''] else [])
                    @ [GetAttr ''search_memories'',
                       Call ''search_memories'' [AStr q]
                         [(''memory_types'', AStrList (parse_list (memory_types c))),
                          (''limit'', AInt (limit c))]] @ rest
                \<and> list_all (touches_only [''get_memory_analytics'']) rest)))"
    by blast
qed

theorem C1_search_dispatch_witness:
  "(\<exists>rest. trace (snd (snd (search_memories scenario_runtime
                (search_node (Some full_engine) (Some ''tea''), fresh_world)))) =
             [HasAttr ''search_memories_semantic'', GetAttr ''search_memories_semantic'',
              Call ''search_memories_semantic'' [AStr ''tea'']
                [(''limit'', AInt 10), (''memory_types'', AStrList [''preference'', ''factual''])]] @ rest
           \<and> list_all (touches_only [''get_memory_analytics'']) rest)
   \<and> (\<exists>rest. trace (snd (snd (search_memories scenario_runtime
                ((search_node (Some full_engine) (Some ''tea''))\<lparr>semantic_search := False\<rparr>, fresh_world)))) =
             [GetAttr ''search_memories'',
              Call ''search_memories'' [AStr ''tea'']
                [(''memory_types'', AStrList [''preference'', ''factual'']), (''limit'', AInt 10)]] @ rest
           \<and> list_all (touches_only [''get_memory_analytics'']) rest)
   \<and> trace (snd (snd (search_memories scenario_runtime
        (search_node (Some bare_engine) (Some ''tea''), fresh_world)))) =
       [HasAttr ''search_memories_semantic'', GetAttr ''search_memories'']"
proof -
  have types: "parse_list (Some '' preference, factual'') = [''preference'', ''factual'']"
    by code_simp
  let ?f = "\<lambda>(q :: string) (lim :: int) (mts :: string list) (n :: nat).
              (Inr (PyIter [(MemDict tea_record, POpaque True)] None)
                 :: pyexc + (bool memory \<times> bool pyval) pyiter, Suc n)"
  let ?g = "\<lambda>(q :: string) (mts :: string list option) (lim :: int) (n :: nat).
              (Inr (PyIter [MemDict tea_record, MemDict cat_record] None)
                 :: pyexc + bool memory pyiter, Suc n)"
  have a: "mem_search_memories_semantic full_engine = Some ?f"
    by (simp add: full_engine_def)
  have b: "mem_search_memories full_engine = Some ?g"
    by (simp add: full_engine_def)
  have c: "mem_search_memories_semantic bare_engine = None \<and> mem_search_memories bare_engine = None"
    by (simp add: bare_engine_def)
  have first:
    "\<exists>rest. trace (snd (snd (search_memories scenario_runtime
                (search_node (Some full_engine) (Some ''tea''), fresh_world)))) =
             [HasAttr ''search_memories_semantic'', GetAttr ''search_memories_semantic'',
              Call ''search_memories_semantic'' [AStr ''tea'']
                [(''limit'', AInt 10), (''memory_types'', AStrList [''preference'', ''factual''])]] @ rest
           \<and> list_all (touches_only [''get_memory_analytics'']) rest"
    using a C1_search_dispatch [of "search_node (Some full_engine) (Some ''tea'')" full_engine
        "''tea''" scenario_runtime fresh_world]
    by (simp add: search_node_def full_engine_def fresh_world_def types)
  have second:
    "\<exists>rest. trace (snd (snd (search_memories scenario_runtime
                ((search_node (Some full_engine) (Some ''tea''))\<lparr>semantic_search := False\<rparr>, fresh_world)))) =
             [GetAttr ''search_memories'',
              Call ''search_memories'' [AStr ''tea'']
                [(''memory_types'', AStrList [''preference'', ''factual'']), (''limit'', AInt 10)]] @ rest
           \<and> list_all (touches_only [''get_memory_analytics'']) rest"
    using b C1_search_dispatch [of "(search_node (Some full_engine) (Some ''tea''))\<lparr>semantic_search := False\<rparr>"
        full_engine "''tea''" scenario_runtime fresh_world]
    by (simp add: search_node_def full_engine_def fresh_world_def types)
  have third:
    "trace (snd (snd (search_memories scenario_runtime
        (search_node (Some bare_engine) (Some ''tea''), fresh_world)))) =
       [HasAttr ''search_memories_semantic'', GetAttr ''search_memories'']"
    using c C1_search_dispatch [of "search_node (Some bare_engine) (Some ''tea'')" bare_engine
        "''tea''" scenario_runtime fresh_world]
    by (simp add: search_node_def bare_engine_def fresh_world_def)
  from first second third show ?thesis by blast
qed

section \<open>Claim C7: what a failed search leaves in the cache\<close>

text \<open>
  Claim C7. When a call on the external memory object raises partway through a search,
  the failed operation leaves no partial effect observable through the node's outputs:
  \<open>get_result_count\<close> reports zero and \<open>get_formatted_results\<close> reports that no
  memories were found.

  The code does not do this. The \<open>except\<close> branch returns the empty list, but leaves
  \<open>_search_results\<close> as the \<open>try\<close> had filled it. Here the semantic search returns one
  record, which is cached, and then \<open>get_memory_analytics\<close> raises: \<open>search_memories\<close>
  returns the empty list with the error status, while the two other outputs of the same
  node report one memory.
\<close>

theorem C7_stale_results:
  "fst (search_memories scenario_runtime (analytics_node, fresh_world)) = Inr []
   \<and> search_component.status (fst (snd (search_memories scenario_runtime (analytics_node, fresh_world))))
       = ''Error searching memories: analytics unavailable''
   \<and> length (priv_search_results (fst (snd (search_memories scenario_runtime (analytics_node, fresh_world))))) = 1
   \<and> fst (get_result_count scenario_runtime (analytics_node, fresh_world)) = Inr (Message (PStr ''1''))
   \<and> fst (get_formatted_results scenario_runtime (analytics_node, fresh_world)) =
       Inr (Message (PStr (''Found 1 memories:'' @ [newline, newline]
                           @ ''1. [PREFERENCE] likes tea (similarity: 1.00)'' @ [newline, newline])))"
proof -
  have "fst (search_memories scenario_runtime (analytics_node, fresh_world)) = Inr []"
    by code_simp
  moreover have "search_component.status (fst (snd (search_memories scenario_runtime (analytics_node, fresh_world))))
       = ''Error searching memories: analytics unavailable''"
    by code_simp
  moreover have "length (priv_search_results (fst (snd (search_memories scenario_runtime (analytics_node, fresh_world))))) = 1"
    by code_simp
  moreover have "fst (get_result_count scenario_runtime (analytics_node, fresh_world)) = Inr (Message (PStr ''1''))"
    by code_simp
  moreover have "fst (get_formatted_results scenario_runtime (analytics_node, fresh_world)) =
       Inr (Message (PStr (''Found 1 memories:'' @ [newline, newline]
                           @ ''1. [PREFERENCE] likes tea (similarity: 1.00)'' @ [newline, newline])))"
    by code_simp
  ultimately show ?thesis by blast
qed

section \<open>Claim C10: the three descriptions of a result agree\<close>

lemma py_then_returned:
  assumes "py_then m k s = (Inr x, s')"
  shows "\<exists>s1. k s1 = (Inr x, s')"
  using assms by (auto simp: py_then_def py_bind_def split: prod.splits sum.splits)

lemma search_done_returned:
  assumes "search_done s1 = (Inr rs, (c', w'))"
  shows "rs = priv_search_results c'
         \<and> search_component.status c' = ''Found '' @ str_of_nat (length rs) @ '' memories''"
  using assms by (cases s1) (auto simp: search_done_def py_defs)

lemma search_try_returned:
  assumes "search_try rt m q (c, w) = (Inr rs, (c', w'))"
  shows "rs = priv_search_results c'
         \<and> search_component.status c' = ''Found '' @ str_of_nat (length rs) @ '' memories''"
proof -
  from assms obtain branch where
    first: "py_then branch (py_then (analytics_step m) search_done) (c, w) = (Inr rs, (c', w'))"
    by (simp add: search_try_def Let_def py_bind_apply get_self_apply)
  from py_then_returned [OF first]
  obtain s1 where second: "py_then (analytics_step m) search_done s1 = (Inr rs, (c', w'))" ..
  from py_then_returned [OF second]
  obtain s2 where "search_done s2 = (Inr rs, (c', w'))" ..
  then show ?thesis by (rule search_done_returned)
qed

lemma format_entries_prefix:
  "format_entries rt i rs acc = Inr t \<Longrightarrow> \<exists>rest. t = acc @ rest"
proof (induction rs arbitrary: i acc)
  case Nil
  then show ?case by simp
next
  case (Cons r rs)
  then obtain line where "format_entry rt i r = Inr line"
    and "format_entries rt (Suc i) rs (acc @ line) = Inr t"
    by (auto split: sum.splits)
  with Cons.IH obtain rest where "t = (acc @ line) @ rest" by blast
  then show ?case by simp
qed

text \<open>
  Claim C10, as stated: whenever \<open>search_memories\<close> completes without raising, the
  status is \<open>Found N memories\<close> for the length \<open>N\<close> of the list it returns.

  \<open>search_memories\<close> never raises. On the path of a guard it returns the empty list and
  names the missing input in the status.
\<close>

theorem C10_counterexample:
  "fst (search_memories scenario_runtime (search_node None (Some ''tea''), fresh_world)) = Inr []
   \<and> search_component.status (fst (snd (search_memories scenario_runtime
        (search_node None (Some ''tea''), fresh_world)))) = ''No memory instance provided''
   \<and> search_component.status (fst (snd (search_memories scenario_runtime
        (search_node None (Some ''tea''), fresh_world))))
       \<noteq> ''Found '' @ str_of_nat (length ([] :: bool Data list)) @ '' memories''"
  by (simp add: search_node_def search_memories_def py_bind_apply get_self_apply search_fail_returns)

text \<open>
  Claim C10, amended: whenever the guarded body of \<open>search_memories\<close> runs to its end
  (the memory instance and the query are truthy and nothing raises inside the \<open>try\<close>),
  the list returned is the cached one and the status is \<open>Found N memories\<close> for its
  length \<open>N\<close>; \<open>get_result_count\<close>, on the same input, returns the decimal rendering of
  that \<open>N\<close>; and when \<open>N > 0\<close> and the formatting of the entries raises nothing,
  \<open>get_formatted_results\<close> returns a text that begins with \<open>Found N memories:\<close>.
\<close>

theorem C10_outputs_agree:
  "search_component.memory_instance c = Some m \<and> is_truthy m \<and> search_query c = Some q \<and> q \<noteq> []
   \<and> search_try rt m q (c, w) = (Inr rs, (c', w')) \<longrightarrow>
     search_memories rt (c, w) = (Inr rs, (c', w'))
     \<and> rs = priv_search_results c'
     \<and> search_component.status c' = ''Found '' @ str_of_nat (length rs) @ '' memories''
     \<and> get_result_count rt (c, w) = (Inr (Message (PStr (str_of_nat (length rs)))), (c', w'))
     \<and> (rs \<noteq> [] \<longrightarrow>
          (\<forall>t. format_entries rt 1 rs
                  (''Found '' @ str_of_nat (length rs) @ '' memories:'' @ [newline, newline]) = Inr t \<longrightarrow>
               get_formatted_results rt (c, w) = (Inr (Message (PStr t)), (c', w'))
               \<and> (\<exists>rest. t = ''Found '' @ str_of_nat (length rs) @ '' memories:'' @ rest)))"
proof (intro impI, elim conjE)
  assume inst: "search_component.memory_instance c = Some m" and tr: "is_truthy m"
    and qu: "search_query c = Some q" and ne: "q \<noteq> []"
    and body: "search_try rt m q (c, w) = (Inr rs, (c', w'))"
  have run: "search_memories rt (c, w) = (Inr rs, (c', w'))"
    unfolding search_memories_guarded [OF inst tr qu ne] using body by (simp add: try_except_def)
  note cached = search_try_returned [OF body]
  have count: "get_result_count rt (c, w) = (Inr (Message (PStr (str_of_nat (length rs)))), (c', w'))"
    using run cached by (simp add: get_result_count_def py_bind_apply get_self_apply py_return_def)
  have formatted:
    "get_formatted_results rt (c, w) = (Inr (Message (PStr t)), (c', w'))
     \<and> (\<exists>rest. t = ''Found '' @ str_of_nat (length rs) @ '' memories:'' @ rest)"
    if some: "rs \<noteq> []"
      and fmt: "format_entries rt 1 rs
                  (''Found '' @ str_of_nat (length rs) @ '' memories:'' @ [newline, newline]) = Inr t" for t
  proof -
    have "get_formatted_results rt (c, w) = (Inr (Message (PStr t)), (c', w'))"
      using run cached some fmt
      by (simp add: get_formatted_results_def py_bind_apply get_self_apply py_return_def py_lift_def)
    moreover from format_entries_prefix [OF fmt]
    have "\<exists>rest. t = ''Found '' @ str_of_nat (length rs) @ '' memories:'' @ rest" by auto
    ultimately show ?thesis by blast
  qed
  from run cached count formatted
  show "search_memories rt (c, w) = (Inr rs, (c', w'))
     \<and> rs = priv_search_results c'
     \<and> search_component.status c' = ''Found '' @ str_of_nat (length rs) @ '' memories''
     \<and> get_result_count rt (c, w) = (Inr (Message (PStr (str_of_nat (length rs)))), (c', w'))
     \<and> (rs \<noteq> [] \<longrightarrow>
          (\<forall>t. format_entries rt 1 rs
                  (''Found '' @ str_of_nat (length rs) @ '' memories:'' @ [newline, newline]) = Inr t \<longrightarrow>
               get_formatted_results rt (c, w) = (Inr (Message (PStr t)), (c', w'))
               \<and> (\<exists>rest. t = ''Found '' @ str_of_nat (length rs) @ '' memories:'' @ rest)))"
    by blast
qed

theorem C10_outputs_agree_witness:
  "fst (search_memories scenario_runtime (keyword_node, fresh_world)) = Inr [Data tea_record, Data cat_record]
   \<and> search_component.status (fst (snd (search_memories scenario_runtime (keyword_node, fresh_world))))
       = ''Found 2 memories''
   \<and> fst (get_result_count scenario_runtime (keyword_node, fresh_world)) = Inr (Message (PStr ''2''))
   \<and> fst (get_formatted_results scenario_runtime (keyword_node, fresh_world))
       = Inr (Message (PStr two_memories_text))
   \<and> (\<exists>rest. two_memories_text = ''Found 2 memories:'' @ rest)"
proof -
  let ?rs = "[Data tea_record, Data cat_record] :: bool Data list"
  let ?X = "search_try scenario_runtime full_engine ''tea'' (keyword_node, fresh_world)"
  have guards: "search_component.memory_instance keyword_node = Some full_engine \<and> is_truthy full_engine
      \<and> search_query keyword_node = Some ''tea'' \<and> ''tea'' \<noteq> []"
    by (simp add: keyword_node_def search_node_def full_engine_def)
  have "fst ?X = Inr ?rs"
    by code_simp
  then have body: "?X = (Inr ?rs, (fst (snd ?X), snd (snd ?X)))"
    by (metis prod.collapse)
  have two: "str_of_nat (length ?rs) = ''2''"
    by code_simp
  have fmt: "format_entries scenario_runtime 1 ?rs
               (''Found '' @ str_of_nat (length ?rs) @ '' memories:'' @ [newline, newline])
             = Inr two_memories_text"
    by code_simp
  have some: "?rs \<noteq> []" by simp
  from C10_outputs_agree [of keyword_node full_engine "''tea''" scenario_runtime fresh_world ?rs
         "fst (snd ?X)" "snd (snd ?X)"] guards body
  have all: "search_memories scenario_runtime (keyword_node, fresh_world) = (Inr ?rs, (fst (snd ?X), snd (snd ?X)))
     \<and> search_component.status (fst (snd ?X)) = ''Found '' @ str_of_nat (length ?rs) @ '' memories''
     \<and> get_result_count scenario_runtime (keyword_node, fresh_world)
         = (Inr (Message (PStr (str_of_nat (length ?rs)))), (fst (snd ?X), snd (snd ?X)))
     \<and> (\<forall>t. format_entries scenario_runtime 1 ?rs
                  (''Found '' @ str_of_nat (length ?rs) @ '' memories:'' @ [newline, newline]) = Inr t \<longrightarrow>
               get_formatted_results scenario_runtime (keyword_node, fresh_world)
                 = (Inr (Message (PStr t)), (fst (snd ?X), snd (snd ?X)))
               \<and> (\<exists>rest. t = ''Found '' @ str_of_nat (length ?rs) @ '' memories:'' @ rest))"
    using some by blast
  then have "get_formatted_results scenario_runtime (keyword_node, fresh_world)
                 = (Inr (Message (PStr two_memories_text)), (fst (snd ?X), snd (snd ?X)))
             \<and> (\<exists>rest. two_memories_text = ''Found '' @ str_of_nat (length ?rs) @ '' memories:'' @ rest)"
    using fmt by blast
  with all show ?thesis
    unfolding two by simp
qed

section \<open>Claim C6: where the memory node gets its instance\<close>

text \<open>
  Claim C6, as stated: for every invocation of \<open>ElizaMemoryComponent.build_memory\<close>, an
  \<open>existing_memory\<close> that is provided becomes the memory instance used, and otherwise
  the instance is obtained from \<open>create_eliza_memory\<close>.

  The \<open>import\<close> of \<open>create_eliza_memory\<close> is the first statement of the \<open>try\<close>, before
  the input is looked at. When it raises, the node keeps no instance and returns \<open>None\<close>
  with an error status, although an existing memory was provided.
\<close>

theorem C6_counterexample:
  "instance_truthy (existing_memory (memory_node (Some full_engine) None))
   \<and> fst (build_memory missing_module (memory_node (Some full_engine) None, fresh_world)) = Inr None
   \<and> priv_memory_instance (fst (snd (build_memory missing_module
        (memory_node (Some full_engine) None, fresh_world)))) = None
   \<and> trace (snd (snd (build_memory missing_module
        (memory_node (Some full_engine) None, fresh_world)))) = []"
  by (simp add: instance_truthy_def memory_node_def full_engine_def missing_module_def fresh_world_def
        build_memory_def build_try_def set_status_def py_defs)

text \<open>
  Claim C6, amended: for every invocation of \<open>build_memory\<close> in which the import of
  \<open>create_eliza_memory\<close> succeeds: if the \<open>existing_memory\<close> input is truthy, it becomes
  the memory instance of the node and is the value returned, and no instance is created
  (every event of the invocation is a use of that instance); otherwise the first event
  is the call of \<open>create_eliza_memory\<close> with \<open>session_id\<close>, \<open>user_id\<close> and
  \<open>memory_extraction\<close> equal to the \<open>extract_memories\<close> input, and the instance it
  returns becomes the memory instance of the node and the value returned. Everything else
  the node does to the world is a use of the memory instance.
\<close>

theorem C6_build_memory:
  "(instance_truthy (existing_memory c) \<longrightarrow>
      fst (build_memory (Inr create) (c, w)) = Inr (existing_memory c)
      \<and> priv_memory_instance (fst (snd (build_memory (Inr create) (c, w)))) = existing_memory c
      \<and> (\<exists>rest. trace (snd (snd (build_memory (Inr create) (c, w)))) = trace w @ rest
                 \<and> list_all on_instance rest))
   \<and> (\<not> instance_truthy (existing_memory c) \<longrightarrow>
      (\<exists>rest. trace (snd (snd (build_memory (Inr create) (c, w)))) =
                trace w @
                  FunCall ''create_eliza_memory'' []
                    [(''session_id'', AStr (memory_component.session_id c)),
                     (''user_id'', AStr (memory_component.user_id c)),
                     (''memory_extraction'', ABool (extract_memories c))] # rest
              \<and> list_all on_instance rest)
      \<and> (\<forall>inst. fst (create (memory_component.session_id c) (memory_component.user_id c)
                         (extract_memories c) (engine_state w)) = Inr inst \<longrightarrow>
            fst (build_memory (Inr create) (c, w)) = Inr (Some inst)
            \<and> priv_memory_instance (fst (snd (build_memory (Inr create) (c, w)))) = Some inst))"
proof (intro conjI impI)
  assume ex: "instance_truthy (existing_memory c)"
  obtain c2 w2 rest where
    run: "build_try (Inr create) (c, w) = (Inr (existing_memory c), (c2, w2))"
    and keep: "priv_memory_instance c2 = existing_memory c"
    and tr: "trace w2 = trace w @ rest"
    and ok: "list_all (\<lambda>ev. on_instance ev \<and> touches_only touched_members ev) rest"
    using build_finish [of "text_truthy (message c)" "c\<lparr>priv_memory_instance := existing_memory c\<rparr>" w]
    unfolding build_try_existing [OF ex, of create w] by auto
  have result: "build_memory (Inr create) (c, w) = (Inr (existing_memory c), (c2, w2))"
    using run by (simp add: build_memory_def try_except_def)
  show "fst (build_memory (Inr create) (c, w)) = Inr (existing_memory c)"
    and "priv_memory_instance (fst (snd (build_memory (Inr create) (c, w)))) = existing_memory c"
    using result keep by simp_all
  from ok have "list_all on_instance rest" by (simp add: list_all_iff)
  with tr result
  show "\<exists>rest. trace (snd (snd (build_memory (Inr create) (c, w)))) = trace w @ rest
                 \<and> list_all on_instance rest"
    by auto
next
  assume nex: "\<not> instance_truthy (existing_memory c)"
  let ?ev = "FunCall ''create_eliza_memory'' []
               [(''session_id'', AStr (memory_component.session_id c)),
                (''user_id'', AStr (memory_component.user_id c)),
                (''memory_extraction'', ABool (extract_memories c))]"
  obtain r s' where call:
    "create (memory_component.session_id c) (memory_component.user_id c) (extract_memories c)
       (engine_state w) = (r, s')"
    by (cases "create (memory_component.session_id c) (memory_component.user_id c)
                 (extract_memories c) (engine_state w)")
  let ?w1 = "w\<lparr>trace := trace w @ [?ev], engine_state := s'\<rparr>"
  have both:
    "(\<exists>rest. trace (snd (snd (build_memory (Inr create) (c, w)))) = trace w @ ?ev # rest
              \<and> list_all on_instance rest)
     \<and> (\<forall>inst. r = Inr inst \<longrightarrow>
            fst (build_memory (Inr create) (c, w)) = Inr (Some inst)
            \<and> priv_memory_instance (fst (snd (build_memory (Inr create) (c, w)))) = Some inst)"
  proof (cases r)
    case (Inl e)
    have "build_memory (Inr create) (c, w) =
            (Inr None, (c\<lparr>memory_component.status := ''Error building memory: '' @ exc_text e\<rparr>, ?w1))"
      using build_try_create_raises [OF nex, of create w e s'] call Inl
      by (simp add: build_memory_def try_except_def set_status_def py_then_def py_bind_apply
            modify_self_def py_return_def)
    with Inl show ?thesis by simp
  next
    case (Inr inst)
    obtain c2 w2 rest where
      run: "build_try (Inr create) (c, w) = (Inr (Some inst), (c2, w2))"
      and keep: "priv_memory_instance c2 = Some inst"
      and tr: "trace w2 = trace ?w1 @ rest"
      and ok: "list_all (\<lambda>ev. on_instance ev \<and> touches_only touched_members ev) rest"
      using build_finish [of "text_truthy (message c)" "c\<lparr>priv_memory_instance := Some inst\<rparr>" ?w1]
      unfolding build_try_created [OF nex, of create w inst s', simplified call Inr, simplified]
      by auto
    have result: "build_memory (Inr create) (c, w) = (Inr (Some inst), (c2, w2))"
      using run by (simp add: build_memory_def try_except_def)
    from ok have "list_all on_instance rest" by (simp add: list_all_iff)
    with result keep tr Inr show ?thesis by auto
  qed
  from both
  show "\<exists>rest. trace (snd (snd (build_memory (Inr create) (c, w)))) = trace w @ ?ev # rest
              \<and> list_all on_instance rest"
    by blast
  from both call
  show "\<forall>inst. fst (create (memory_component.session_id c) (memory_component.user_id c)
                         (extract_memories c) (engine_state w)) = Inr inst \<longrightarrow>
            fst (build_memory (Inr create) (c, w)) = Inr (Some inst)
            \<and> priv_memory_instance (fst (snd (build_memory (Inr create) (c, w)))) = Some inst"
    by simp
qed

theorem C6_build_memory_witness:
  "fst (build_memory (Inr scenario_create) (memory_node (Some full_engine) (Some ''hello''), fresh_world))
     = Inr (Some full_engine)
   \<and> list_all on_instance (trace (snd (snd (build_memory (Inr scenario_create)
        (memory_node (Some full_engine) (Some ''hello''), fresh_world)))))
   \<and> fst (build_memory (Inr scenario_create) (memory_node None (Some ''hello''), fresh_world))
     = Inr (Some full_engine)
   \<and> (\<exists>rest. trace (snd (snd (build_memory (Inr scenario_create)
                (memory_node None (Some ''hello''), fresh_world)))) =
              FunCall ''create_eliza_memory'' []
                [(''session_id'', AStr ''default_session''), (''user_id'', AStr ''anonymous''),
                 (''memory_extraction'', ABool True)] # rest
            \<and> list_all on_instance rest)"
proof -
  have a: "instance_truthy (existing_memory (memory_node (Some full_engine) (Some ''hello'')))"
    by (simp add: instance_truthy_def memory_node_def full_engine_def)
  have b: "\<not> instance_truthy (existing_memory (memory_node None (Some ''hello'')))"
    by (simp add: instance_truthy_def memory_node_def)
  have made: "fst (scenario_create
                     (memory_component.session_id (memory_node None (Some ''hello'')))
                     (memory_component.user_id (memory_node None (Some ''hello'')))
                     (extract_memories (memory_node None (Some ''hello'')))
                     (engine_state fresh_world)) = Inr full_engine"
    by (simp add: scenario_create_def)
  have first:
    "fst (build_memory (Inr scenario_create) (memory_node (Some full_engine) (Some ''hello''), fresh_world))
       = Inr (Some full_engine)
     \<and> list_all on_instance (trace (snd (snd (build_memory (Inr scenario_create)
          (memory_node (Some full_engine) (Some ''hello''), fresh_world)))))"
    using a C6_build_memory [of "memory_node (Some full_engine) (Some ''hello'')" scenario_create fresh_world]
    by (auto simp: memory_node_def fresh_world_def)
  have second:
    "fst (build_memory (Inr scenario_create) (memory_node None (Some ''hello''), fresh_world))
       = Inr (Some full_engine)
     \<and> (\<exists>rest. trace (snd (snd (build_memory (Inr scenario_create)
                (memory_node None (Some ''hello''), fresh_world)))) =
              FunCall ''create_eliza_memory'' []
                [(''session_id'', AStr ''default_session''), (''user_id'', AStr ''anonymous''),
                 (''memory_extraction'', ABool True)] # rest
            \<and> list_all on_instance rest)"
    using b made C6_build_memory [of "memory_node None (Some ''hello'')" scenario_create fresh_world]
    by (auto simp: memory_node_def fresh_world_def)
  from first second show ?thesis by blast
qed

section \<open>Claim C5: the attributes of the memory instance that the adapters touch\<close>

lemma touched_simps:
  "touches_only touched_members (HasAttr n) = (n \<in> set touched_members)"
  "touches_only touched_members (GetAttr n) = (n \<in> set touched_members)"
  "touches_only touched_members (Call n args kwargs) = (n \<in> set touched_members)"
  "touches_only touched_members (FunCall n args kwargs) = True"
  by (simp_all add: touches_only_def)

lemma touched_names:
  "''save_context'' \<in> set touched_members" "''load_memory_variables'' \<in> set touched_members"
  "''search_memories'' \<in> set touched_members" "''search_memories_semantic'' \<in> set touched_members"
  "''add_memory'' \<in> set touched_members" "''store_memory'' \<in> set touched_members"
  "''get_memory_analytics'' \<in> set touched_members" "''memory_store'' \<in> set touched_members"
  "''memory_key'' \<in> set touched_members" "''_get_timestamp'' \<in> set touched_members"
  by (simp_all add: touched_members_def listed_members_def)

lemmas touched_rules =
  extends_rules stable_if stable_case_option extends_hasattr extends_getattr extends_invoke extends_log

lemma search_memories_touches:
  "stable (extends (touches_only touched_members))
     (search_memories rt :: ('o Data list, ('s, 'o) search_state) py)"
proof -
  have conv_s: "\<And>x. stable (extends (touches_only touched_members))
                  (convert_semantic rt x :: (unit, ('s, 'o) search_state) py)"
    unfolding convert_semantic_def by (auto intro!: extends_rules)
  have conv_k: "\<And>x. stable (extends (touches_only touched_members))
                  (convert_keyword rt x :: (unit, ('s, 'o) search_state) py)"
    unfolding convert_keyword_def by (auto intro!: extends_rules)
  have sem: "\<And>m q mts. stable (extends (touches_only touched_members))
                  (semantic_branch rt m q mts :: (unit, ('s, 'o) search_state) py)"
    unfolding semantic_branch_def
    by (intro touched_rules conv_s) (simp_all add: touched_simps touched_names)
  have kw: "\<And>m q mts. stable (extends (touches_only touched_members))
                  (keyword_branch rt m q mts :: (unit, ('s, 'o) search_state) py)"
    unfolding keyword_branch_def
    by (intro touched_rules conv_k) (simp_all add: touched_simps touched_names)
  have an: "\<And>m. stable (extends (touches_only touched_members))
                  (analytics_step m :: (unit, ('s, 'o) search_state) py)"
    unfolding analytics_step_def
    by (intro touched_rules) (simp_all add: touched_simps touched_names)
  have fail: "\<And>msg. stable (extends (touches_only touched_members))
                  (search_fail msg :: ('o Data list, ('s, 'o) search_state) py)"
    unfolding search_fail_def by (intro touched_rules)
  have body: "\<And>m q. stable (extends (touches_only touched_members))
                  (search_try rt m q :: ('o Data list, ('s, 'o) search_state) py)"
    unfolding search_try_def Let_def
    by (intro touched_rules sem kw an search_done_extends) (simp_all add: touched_simps touched_names)
  show ?thesis
    unfolding search_memories_def
    by (intro touched_rules fail body)
qed

lemma store_memory_touches:
  "stable (extends (touches_only touched_members))
     (store_memory rt :: ('o Data, ('s, 'o) store_state) py)"
proof -
  have add: "\<And>m cont tgs. stable (extends (touches_only touched_members))
                  (add_memory_branch m cont tgs :: (unit, ('s, 'o) store_state) py)"
    unfolding add_memory_branch_def Let_def
    by (intro touched_rules) (auto simp: touched_simps touched_names intro!: touched_rules split: list.splits)
  have sto: "\<And>m cont tgs. stable (extends (touches_only touched_members))
                  (store_memory_branch rt m cont tgs :: (unit, ('s, 'o) store_state) py)"
    unfolding store_memory_branch_def
    by (intro touched_rules)
       (auto simp: touched_simps touched_names intro!: touched_rules split: stored.splits option.splits)
  have fin: "\<And>cont tgs. stable (extends (touches_only touched_members))
                  (store_finish rt cont tgs :: ('o Data, ('s, 'o) store_state) py)"
    unfolding store_finish_def by (intro touched_rules)
  have fail: "\<And>msg. stable (extends (touches_only touched_members))
                  (store_fail msg :: ('o Data, ('s, 'o) store_state) py)"
    unfolding store_fail_def by (intro touched_rules)
  have body: "\<And>m cont. stable (extends (touches_only touched_members))
                  (store_try rt m cont :: ('o Data, ('s, 'o) store_state) py)"
    unfolding store_try_def Let_def
    by (intro touched_rules add sto fin fail) (simp_all add: touched_simps touched_names)
  show ?thesis
    unfolding store_memory_def
    by (intro touched_rules fail body)
qed

lemma build_memory_touches:
  "stable (extends (touches_only touched_members))
     (build_memory imported :: (('s, 'o) ElizaLongTermMemory option, ('s, 'o) memory_state) py)"
proof -
  have pm: "stable (extends (touches_only touched_members))
              (process_message :: (unit, ('s, 'o) memory_state) py)"
    by (rule extends_mono [OF process_message_extends]) simp
  have body: "stable (extends (touches_only touched_members))
                (build_try imported :: (('s, 'o) ElizaLongTermMemory option, ('s, 'o) memory_state) py)"
    unfolding build_try_def
    by (intro touched_rules pm) (simp_all add: touched_simps)
  show ?thesis
    unfolding build_memory_def
    by (intro touched_rules body set_status_extends)
qed

text \<open>
  Claim C5, as stated: the only members the adapters ever access on the external memory
  object are \<open>save_context\<close>, \<open>load_memory_variables\<close>, \<open>search_memories\<close>,
  \<open>search_memories_semantic\<close>, \<open>add_memory\<close>, \<open>store_memory\<close> and
  \<open>get_memory_analytics\<close>.

  The store node also probes and reads \<open>memory_store\<close> after \<open>add_memory\<close>, and the
  memory node reads \<open>memory_key\<close> and calls \<open>_get_timestamp\<close> while it processes a
  message.
\<close>

theorem C5_counterexample:
  "HasAttr ''memory_store'' \<in> set (trace (snd (snd (store_memory scenario_runtime
      (store_node (Some full_engine) (Some ''likes tea''), fresh_world)))))
   \<and> GetAttr ''memory_key'' \<in> set (trace (snd (snd (build_memory (Inr scenario_create)
      (memory_node (Some full_engine) (Some ''hello''), fresh_world)))))
   \<and> Call ''_get_timestamp'' [] [] \<in> set (trace (snd (snd (build_memory (Inr scenario_create)
      (memory_node (Some full_engine) (Some ''hello''), fresh_world)))))
   \<and> ''memory_store'' \<notin> set listed_members
   \<and> ''memory_key'' \<notin> set listed_members
   \<and> ''_get_timestamp'' \<notin> set listed_members"
proof -
  have "HasAttr ''memory_store'' \<in> set (trace (snd (snd (store_memory scenario_runtime
      (store_node (Some full_engine) (Some ''likes tea''), fresh_world)))))"
    by code_simp
  moreover have "GetAttr ''memory_key'' \<in> set (trace (snd (snd (build_memory (Inr scenario_create)
      (memory_node (Some full_engine) (Some ''hello''), fresh_world)))))"
    by code_simp
  moreover have "Call ''_get_timestamp'' [] [] \<in> set (trace (snd (snd (build_memory (Inr scenario_create)
      (memory_node (Some full_engine) (Some ''hello''), fresh_world)))))"
    by code_simp
  moreover have "''memory_store'' \<notin> set listed_members" "''memory_key'' \<notin> set listed_members"
    "''_get_timestamp'' \<notin> set listed_members"
    by (simp_all add: listed_members_def)
  ultimately show ?thesis by blast
qed

text \<open>
  Claim C5, amended: the only members the adapters ever access on the external memory
  object are the seven methods of the list and \<open>memory_store\<close>, \<open>memory_key\<close> and
  \<open>_get_timestamp\<close>: every event that any of the thirteen operations of the three
  adapters adds to the trace is a call of the library function or touches one of these
  ten attributes.
\<close>

theorem C5_members_touched:
  "stable (extends (touches_only touched_members))
     (search_memories rt :: ('o Data list, ('s, 'o) search_state) py)
   \<and> stable (extends (touches_only touched_members))
     (get_formatted_results rt :: ('o Message, ('s, 'o) search_state) py)
   \<and> stable (extends (touches_only touched_members))
     (get_memory_analytics rt :: ('o Data, ('s, 'o) search_state) py)
   \<and> stable (extends (touches_only touched_members))
     (get_result_count rt :: ('o Message, ('s, 'o) search_state) py)
   \<and> stable (extends (touches_only touched_members))
     (store_memory rt :: ('o Data, ('s, 'o) store_state) py)
   \<and> stable (extends (touches_only touched_members))
     (get_memory_id rt :: ('o Message, ('s, 'o) store_state) py)
   \<and> stable (extends (touches_only touched_members))
     (get_storage_status rt :: ('o Message, ('s, 'o) store_state) py)
   \<and> stable (extends (touches_only touched_members))
     (get_updated_memory_instance rt :: (('s, 'o) ElizaLongTermMemory option, ('s, 'o) store_state) py)
   \<and> stable (extends (touches_only touched_members))
     (build_memory imported :: (('s, 'o) ElizaLongTermMemory option, ('s, 'o) memory_state) py)
   \<and> stable (extends (touches_only touched_members)) (get_memory_context rt imported)
   \<and> stable (extends (touches_only touched_members)) (get_memory_instance imported)
   \<and> stable (extends (touches_only touched_members)) (get_stored_message imported)
   \<and> stable (extends (touches_only touched_members)) (get_relevant_memories rt imported)"
  unfolding get_formatted_results_def get_memory_analytics_def get_result_count_def
    get_memory_id_def get_storage_status_def get_updated_memory_instance_def
    get_memory_context_def get_memory_instance_def get_stored_message_def get_relevant_memories_def
  by (intro conjI touched_rules search_memories_touches store_memory_touches build_memory_touches)

theorem C5_members_touched_witness:
  "list_all (touches_only touched_members)
     (trace (snd (snd (store_memory scenario_runtime
        (store_node (Some full_engine) (Some ''likes tea''), fresh_world)))))
   \<and> list_all (touches_only touched_members)
     (trace (snd (snd (build_memory (Inr scenario_create)
        (memory_node (Some full_engine) (Some ''hello''), fresh_world)))))"
proof -
  have s: "stable (extends (touches_only touched_members))
             (store_memory scenario_runtime :: (bool Data, (nat, bool) store_state) py)"
    and b: "stable (extends (touches_only touched_members))
             (build_memory (Inr scenario_create)
                :: ((nat, bool) ElizaLongTermMemory option, (nat, bool) memory_state) py)"
    using C5_members_touched [of scenario_runtime "Inr scenario_create"] by blast+
  from extendsD [OF s, of "(store_node (Some full_engine) (Some ''likes tea''), fresh_world)"]
       extendsD [OF b, of "(memory_node (Some full_engine) (Some ''hello''), fresh_world)"]
  show ?thesis by (auto simp: fresh_world_def)
qed

section \<open>Claim C3: exceptions become a status\<close>

lemma py_then_raises: "fst (m s) = Inl e \<Longrightarrow> fst (py_then m k s) = Inl e"
  by (cases "m s") (auto simp: py_then_def py_bind_def)

lemma search_call_raises:
  assumes "(semantic_search c \<and> mem_search_memories_semantic m = Some f
              \<and> fst (f q (limit c) (parse_list (memory_types c)) (engine_state w)) = Inl e)
           \<or> (\<not> (semantic_search c \<and> mem_search_memories_semantic m \<noteq> None)
              \<and> mem_search_memories m = Some g
              \<and> fst (g q (Some (parse_list (memory_types c))) (limit c) (engine_state w)) = Inl e)"
  shows "fst (search_try rt m q (c, w)) = Inl e"
  using assms
proof (elim disjE conjE)
  assume sem: "semantic_search c" and hf: "mem_search_memories_semantic m = Some f"
    and r: "fst (f q (limit c) (parse_list (memory_types c)) (engine_state w)) = Inl e"
  show ?thesis
    unfolding search_try_semantic [OF sem hf]
    by (rule py_then_raises)
       (simp add: semantic_branch_def py_bind_apply get_self_apply invoke_some hf r)
next
  assume kw: "\<not> (semantic_search c \<and> mem_search_memories_semantic m \<noteq> None)"
    and hg: "mem_search_memories m = Some g"
    and r: "fst (g q (Some (parse_list (memory_types c))) (limit c) (engine_state w)) = Inl e"
  show ?thesis
    unfolding search_try_keyword [OF kw]
    by (rule py_then_raises)
       (simp add: keyword_branch_def py_bind_apply get_self_apply invoke_some hg r)
qed

lemma search_memories_caught:
  assumes "search_component.memory_instance c = Some m" and "is_truthy m"
    and "search_query c = Some q" and "q \<noteq> []"
    and "fst (search_try rt m q (c, w)) = Inl e"
  shows "fst (search_memories rt (c, w)) = Inr []
         \<and> search_component.status (fst (snd (search_memories rt (c, w))))
             = ''Error searching memories: '' @ exc_text e"
  unfolding search_memories_guarded [OF assms(1-4)]
  using assms(5)
  by (cases "search_try rt m q (c, w)") (auto simp: try_except_def search_fail_def py_defs)

lemma store_call_raises:
  assumes "(mem_add_memory m = Some f
              \<and> fst (f cont (memory_type k) (dict_val (store_component.metadata k))
                       (parse_list (store_component.tags k)) (engine_state w)) = Inl e)
           \<or> (mem_add_memory m = None \<and> mem_store_memory m = Some g
              \<and> fst (g (store_component.user_id k) cont (memory_type k) (store_component.session_id k)
                       (dict_val (store_component.metadata k)) (parse_list (store_component.tags k))
                       (relevance_score k) (engine_state w)) = Inl e)"
  shows "fst (store_try rt m cont (k, w)) = Inl e"
  using assms
  by (auto simp: store_try_def Let_def py_bind_apply get_self_apply hasattr_apply invoke_some
        add_memory_branch_def store_memory_branch_def py_then_def)

lemma store_memory_caught:
  assumes "store_component.memory_instance k = Some m" and "is_truthy m"
    and "content k = Some cont" and "cont \<noteq> []"
    and "fst (store_try rt m cont (k, w)) = Inl e"
  shows "fst (store_memory rt (k, w)) = Inr (Data [])
         \<and> priv_storage_status (fst (snd (store_memory rt (k, w))))
             = ''Error storing memory: '' @ exc_text e"
  unfolding store_memory_guarded [OF assms(1-4)]
  using assms(5)
  by (cases "store_try rt m cont (k, w)") (auto simp: try_except_def store_fail_def py_defs)

lemma build_memory_import_raises:
  "fst (build_memory (Inl e) (c, w)) = Inr None
   \<and> memory_component.status (fst (snd (build_memory (Inl e) (c, w))))
       = ''Error building memory: '' @ exc_text e"
  by (simp add: build_memory_def build_try_def set_status_def py_defs)

lemma build_memory_create_raises:
  assumes "\<not> instance_truthy (existing_memory c)"
    and "fst (create (memory_component.session_id c) (memory_component.user_id c)
                (extract_memories c) (engine_state w)) = Inl e"
  shows "fst (build_memory (Inr create) (c, w)) = Inr None
         \<and> memory_component.status (fst (snd (build_memory (Inr create) (c, w))))
             = ''Error building memory: '' @ exc_text e"
proof -
  obtain s' where "create (memory_component.session_id c) (memory_component.user_id c)
                     (extract_memories c) (engine_state w) = (Inl e, s')"
    using assms(2) by (metis prod.collapse)
  from build_try_create_raises [of c create w e s', OF assms(1) this]
  show ?thesis
    by (simp add: build_memory_def try_except_def set_status_def py_then_def py_bind_apply
          modify_self_def py_return_def)
qed

lemma save_context_raises:
  assumes "mem_save_context m = Some sc"
    and "fst (sc (process_inputs c msg) [(''output'', PStr [])] (engine_state w)) = Inl e"
  shows "fst (process_try m msg (c, w)) = Inl e"
  using assms
  by (simp add: process_try_def Let_def py_bind_apply get_self_apply invoke_some py_then_def)

lemma build_memory_process_raises:
  assumes "existing_memory c = Some m" and "is_truthy m"
    and "message c = Some msg" and "msg \<noteq> []"
    and "fst (process_try m msg (c\<lparr>priv_memory_instance := Some m\<rparr>, w)) = Inl e"
  shows "fst (build_memory (Inr create) (c, w)) = Inr (Some m)
         \<and> memory_component.status (fst (snd (build_memory (Inr create) (c, w))))
             = ''Error processing message: '' @ exc_text e"
proof -
  have ex: "instance_truthy (existing_memory c)"
    using assms(1,2) by (simp add: instance_truthy_def)
  obtain c1 w1 where body: "process_try m msg (c\<lparr>priv_memory_instance := Some m\<rparr>, w) = (Inl e, (c1, w1))"
    using assms(5) by (metis prod.collapse)
  have keep: "priv_memory_instance c1 = Some m"
    using stableD [OF process_try_keeps_instance, of m msg "(c\<lparr>priv_memory_instance := Some m\<rparr>, w)"] body
    by simp
  have "build_try (Inr create) (c, w) =
          (Inr (Some m), (c1\<lparr>memory_component.status := ''Error processing message: '' @ exc_text e\<rparr>, w1))"
    unfolding build_try_existing [OF ex]
    using assms(1-4) body keep
    by (simp add: text_truthy_def process_message_def try_except_def set_status_def py_then_def
          py_bind_apply get_self_apply modify_self_def py_return_def)
  then have "build_memory (Inr create) (c, w) =
          (Inr (Some m), (c1\<lparr>memory_component.status := ''Error processing message: '' @ exc_text e\<rparr>, w1))"
    by (simp add: build_memory_def try_except_def)
  then show ?thesis by simp
qed

lemma build_memory_process_raises_created:
  assumes "\<not> instance_truthy (existing_memory c)"
    and "create (memory_component.session_id c) (memory_component.user_id c) (extract_memories c)
           (engine_state w) = (Inr m, s')"
    and "is_truthy m" and "message c = Some msg" and "msg \<noteq> []"
    and "fst (process_try m msg
               (c\<lparr>priv_memory_instance := Some m\<rparr>,
                w\<lparr>trace := trace w @
                       [FunCall ''create_eliza_memory'' []
                          [(''session_id'', AStr (memory_component.session_id c)),
                           (''user_id'', AStr (memory_component.user_id c)),
                           (''memory_extraction'', ABool (extract_memories c))]],
                  engine_state := s'\<rparr>)) = Inl e"
  shows "fst (build_memory (Inr create) (c, w)) = Inr (Some m)
         \<and> memory_component.status (fst (snd (build_memory (Inr create) (c, w))))
             = ''Error processing message: '' @ exc_text e"
proof -
  let ?w1 = "w\<lparr>trace := trace w @
                   [FunCall ''create_eliza_memory'' []
                      [(''session_id'', AStr (memory_component.session_id c)),
                       (''user_id'', AStr (memory_component.user_id c)),
                       (''memory_extraction'', ABool (extract_memories c))]],
              engine_state := s'\<rparr>"
  obtain c1 w1 where body:
    "process_try m msg (c\<lparr>priv_memory_instance := Some m\<rparr>, ?w1) = (Inl e, (c1, w1))"
    using assms(6) by (metis prod.collapse)
  have keep: "priv_memory_instance c1 = Some m"
    using stableD [OF process_try_keeps_instance, of m msg "(c\<lparr>priv_memory_instance := Some m\<rparr>, ?w1)"] body
    by simp
  have "build_try (Inr create) (c, w) =
          (Inr (Some m), (c1\<lparr>memory_component.status := ''Error processing message: '' @ exc_text e\<rparr>, w1))"
    unfolding build_try_created [of c create w m s', OF assms(1,2)]
    using assms(3-5) body keep
    by (simp add: text_truthy_def process_message_def try_except_def set_status_def py_then_def
          py_bind_apply get_self_apply modify_self_def py_return_def)
  then have "build_memory (Inr create) (c, w) =
          (Inr (Some m), (c1\<lparr>memory_component.status := ''Error processing message: '' @ exc_text e\<rparr>, w1))"
    by (simp add: build_memory_def try_except_def)
  then show ?thesis by simp
qed

text \<open>
  Claim C3, as stated: in each of the three adapter operations, when the call to the
  external memory object raises, the operation catches the exception, puts its text into
  the status and returns an empty or default value; for \<open>build_memory\<close> that value is
  \<open>None\<close>.

  In \<open>build_memory\<close> the calls on the memory object are made by \<open>_process_message\<close>,
  which has a \<open>try\<close> of its own: when \<open>save_context\<close> raises, the status is set there
  and \<open>build_memory\<close> goes on to return the memory instance.
\<close>

theorem C3_counterexample:
  "mem_save_context down_engine =
     Some (\<lambda>inputs outputs n. (Inl (PyExc ''engine down''), Suc n))
   \<and> fst (build_memory (Inr scenario_create) (memory_node (Some down_engine) (Some ''hello''), fresh_world))
       = Inr (Some down_engine)
   \<and> memory_component.status (fst (snd (build_memory (Inr scenario_create)
        (memory_node (Some down_engine) (Some ''hello''), fresh_world))))
       = ''Error processing message: engine down''"
proof -
  have sc: "mem_save_context down_engine =
     Some (\<lambda>inputs outputs n. (Inl (PyExc ''engine down''), Suc n))"
    by (simp add: down_engine_def)
  have body: "fst (process_try down_engine ''hello''
                ((memory_node (Some down_engine) (Some ''hello''))\<lparr>priv_memory_instance := Some down_engine\<rparr>,
                 fresh_world)) = Inl (PyExc ''engine down'')"
    by (rule save_context_raises [OF sc]) simp
  have "existing_memory (memory_node (Some down_engine) (Some ''hello'')) = Some down_engine"
    and "is_truthy down_engine"
    and "message (memory_node (Some down_engine) (Some ''hello'')) = Some ''hello''"
    and "''hello'' \<noteq> []"
    by (simp_all add: memory_node_def down_engine_def full_engine_def)
  from build_memory_process_raises [OF this body, of scenario_create] sc
  show ?thesis by simp
qed

text \<open>
  Claim C3, amended: in \<open>search_memories\<close> and \<open>store_memory\<close>, whenever anything raises
  inside the \<open>try\<close>, and in particular when the search call (semantic or keyword) or the
  storage call (\<open>add_memory\<close> or \<open>store_memory\<close>) on the external memory object raises,
  the operation catches the exception, sets its status to \<open>Error searching memories: \<close>
  or \<open>Error storing memory: \<close> followed by the exception text, and returns the empty
  list or a \<open>Data\<close> with an empty payload. \<open>build_memory\<close> sets the status to
  \<open>Error building memory: \<close> followed by the text and returns \<open>None\<close> when the import or
  \<open>create_eliza_memory\<close> raises; when a call on the memory object raises while the
  message is processed (\<open>save_context\<close> for one), the status becomes
  \<open>Error processing message: \<close> followed by the text and \<open>build_memory\<close> returns the
  memory instance, be it the existing one or the one \<open>create_eliza_memory\<close> has just
  returned.
\<close>

theorem C3_exceptions_caught:
  "(search_component.memory_instance c = Some m \<and> is_truthy m \<and> search_query c = Some q \<and> q \<noteq> []
      \<and> fst (search_try rt m q (c, w)) = Inl e \<longrightarrow>
        fst (search_memories rt (c, w)) = Inr []
        \<and> search_component.status (fst (snd (search_memories rt (c, w))))
            = ''Error searching memories: '' @ exc_text e)
   \<and> (search_component.memory_instance c = Some m \<and> is_truthy m \<and> search_query c = Some q \<and> q \<noteq> []
      \<and> ((semantic_search c \<and> mem_search_memories_semantic m = Some f
             \<and> fst (f q (limit c) (parse_list (memory_types c)) (engine_state w)) = Inl e)
          \<or> (\<not> (semantic_search c \<and> mem_search_memories_semantic m \<noteq> None)
             \<and> mem_search_memories m = Some g
             \<and> fst (g q (Some (parse_list (memory_types c))) (limit c) (engine_state w)) = Inl e)) \<longrightarrow>
        fst (search_memories rt (c, w)) = Inr []
        \<and> search_component.status (fst (snd (search_memories rt (c, w))))
            = ''Error searching memories: '' @ exc_text e)
   \<and> (store_component.memory_instance k = Some m \<and> is_truthy m \<and> content k = Some cont \<and> cont \<noteq> []
      \<and> fst (store_try rt m cont (k, w)) = Inl e \<longrightarrow>
        fst (store_memory rt (k, w)) = Inr (Data [])
        \<and> priv_storage_status (fst (snd (store_memory rt (k, w))))
            = ''Error storing memory: '' @ exc_text e)
   \<and> (store_component.memory_instance k = Some m \<and> is_truthy m \<and> content k = Some cont \<and> cont \<noteq> []
      \<and> ((mem_add_memory m = Some fa
             \<and> fst (fa cont (memory_type k) (dict_val (store_component.metadata k))
                      (parse_list (store_component.tags k)) (engine_state w)) = Inl e)
          \<or> (mem_add_memory m = None \<and> mem_store_memory m = Some gs
             \<and> fst (gs (store_component.user_id k) cont (memory_type k) (store_component.session_id k)
                      (dict_val (store_component.metadata k)) (parse_list (store_component.tags k))
                      (relevance_score k) (engine_state w)) = Inl e)) \<longrightarrow>
        fst (store_memory rt (k, w)) = Inr (Data [])
        \<and> priv_storage_status (fst (snd (store_memory rt (k, w))))
            = ''Error storing memory: '' @ exc_text e)
   \<and> (fst (build_memory (Inl e) (b, w)) = Inr None
      \<and> memory_component.status (fst (snd (build_memory (Inl e) (b, w))))
          = ''Error building memory: '' @ exc_text e)
   \<and> (\<not> instance_truthy (existing_memory b)
      \<and> fst (create (memory_component.session_id b) (memory_component.user_id b)
                (extract_memories b) (engine_state w)) = Inl e \<longrightarrow>
        fst (build_memory (Inr create) (b, w)) = Inr None
        \<and> memory_component.status (fst (snd (build_memory (Inr create) (b, w))))
            = ''Error building memory: '' @ exc_text e)
   \<and> (existing_memory b = Some m \<and> is_truthy m \<and> message b = Some msg \<and> msg \<noteq> []
      \<and> (fst (process_try m msg (b\<lparr>priv_memory_instance := Some m\<rparr>, w)) = Inl e
          \<or> (mem_save_context m = Some sc
             \<and> fst (sc (process_inputs b msg) [(''output'', PStr [])] (engine_state w)) = Inl e)) \<longrightarrow>
        fst (build_memory (Inr create) (b, w)) = Inr (Some m)
        \<and> memory_component.status (fst (snd (build_memory (Inr create) (b, w))))
            = ''Error processing message: '' @ exc_text e)
   \<and> (\<not> instance_truthy (existing_memory b)
      \<and> create (memory_component.session_id b) (memory_component.user_id b)
            (extract_memories b) (engine_state w) = (Inr m, s')
      \<and> is_truthy m \<and> message b = Some msg \<and> msg \<noteq> []
      \<and> (fst (process_try m msg
                 (b\<lparr>priv_memory_instance := Some m\<rparr>,
                  w\<lparr>trace := trace w @
                         [FunCall ''create_eliza_memory'' []
                            [(''session_id'', AStr (memory_component.session_id b)),
                             (''user_id'', AStr (memory_component.user_id b)),
                             (''memory_extraction'', ABool (extract_memories b))]],
                    engine_state := s'\<rparr>)) = Inl e
          \<or> (mem_save_context m = Some sc
             \<and> fst (sc (process_inputs b msg) [(''output'', PStr [])] s') = Inl e)) \<longrightarrow>
        fst (build_memory (Inr create) (b, w)) = Inr (Some m)
        \<and> memory_component.status (fst (snd (build_memory (Inr create) (b, w))))
            = ''Error processing message: '' @ exc_text e)"
proof (intro conjI impI; (elim conjE)?)
  assume "search_component.memory_instance c = Some m" "is_truthy m" "search_query c = Some q" "q \<noteq> []"
    "fst (search_try rt m q (c, w)) = Inl e"
  then show "fst (search_memories rt (c, w)) = Inr []"
    and "search_component.status (fst (snd (search_memories rt (c, w))))
           = ''Error searching memories: '' @ exc_text e"
    using search_memories_caught by blast+
next
  assume g: "search_component.memory_instance c = Some m" "is_truthy m" "search_query c = Some q" "q \<noteq> []"
    and r: "(semantic_search c \<and> mem_search_memories_semantic m = Some f
             \<and> fst (f q (limit c) (parse_list (memory_types c)) (engine_state w)) = Inl e)
          \<or> (\<not> (semantic_search c \<and> mem_search_memories_semantic m \<noteq> None)
             \<and> mem_search_memories m = Some g
             \<and> fst (g q (Some (parse_list (memory_types c))) (limit c) (engine_state w)) = Inl e)"
  from search_memories_caught [OF g search_call_raises [OF r]]
  show "fst (search_memories rt (c, w)) = Inr []"
    and "search_component.status (fst (snd (search_memories rt (c, w))))
           = ''Error searching memories: '' @ exc_text e"
    by blast+
next
  assume "store_component.memory_instance k = Some m" "is_truthy m" "content k = Some cont" "cont \<noteq> []"
    "fst (store_try rt m cont (k, w)) = Inl e"
  then show "fst (store_memory rt (k, w)) = Inr (Data [])"
    and "priv_storage_status (fst (snd (store_memory rt (k, w)))) = ''Error storing memory: '' @ exc_text e"
    using store_memory_caught by blast+
next
  assume g: "store_component.memory_instance k = Some m" "is_truthy m" "content k = Some cont" "cont \<noteq> []"
    and r: "(mem_add_memory m = Some fa
             \<and> fst (fa cont (memory_type k) (dict_val (store_component.metadata k))
                      (parse_list (store_component.tags k)) (engine_state w)) = Inl e)
          \<or> (mem_add_memory m = None \<and> mem_store_memory m = Some gs
             \<and> fst (gs (store_component.user_id k) cont (memory_type k) (store_component.session_id k)
                      (dict_val (store_component.metadata k)) (parse_list (store_component.tags k))
                      (relevance_score k) (engine_state w)) = Inl e)"
  from store_memory_caught [OF g store_call_raises [OF r]]
  show "fst (store_memory rt (k, w)) = Inr (Data [])"
    and "priv_storage_status (fst (snd (store_memory rt (k, w)))) = ''Error storing memory: '' @ exc_text e"
    by blast+
next
  show "fst (build_memory (Inl e) (b, w)) = Inr None"
    and "memory_component.status (fst (snd (build_memory (Inl e) (b, w))))
           = ''Error building memory: '' @ exc_text e"
    using build_memory_import_raises by blast+
next
  assume "\<not> instance_truthy (existing_memory b)"
    "fst (create (memory_component.session_id b) (memory_component.user_id b)
            (extract_memories b) (engine_state w)) = Inl e"
  then show "fst (build_memory (Inr create) (b, w)) = Inr None"
    and "memory_component.status (fst (snd (build_memory (Inr create) (b, w))))
           = ''Error building memory: '' @ exc_text e"
    using build_memory_create_raises by blast+
next
  assume g: "existing_memory b = Some m" "is_truthy m" "message b = Some msg" "msg \<noteq> []"
    and r: "fst (process_try m msg (b\<lparr>priv_memory_instance := Some m\<rparr>, w)) = Inl e
          \<or> (mem_save_context m = Some sc
             \<and> fst (sc (process_inputs b msg) [(''output'', PStr [])] (engine_state w)) = Inl e)"
  have body: "fst (process_try m msg (b\<lparr>priv_memory_instance := Some m\<rparr>, w)) = Inl e"
    using r
  proof
    assume "fst (process_try m msg (b\<lparr>priv_memory_instance := Some m\<rparr>, w)) = Inl e"
    then show ?thesis .
  next
    assume "mem_save_context m = Some sc
             \<and> fst (sc (process_inputs b msg) [(''output'', PStr [])] (engine_state w)) = Inl e"
    then show ?thesis
      by (intro save_context_raises [of m sc]) (simp_all add: process_inputs_def)
  qed
  from build_memory_process_raises [OF g body]
  show "fst (build_memory (Inr create) (b, w)) = Inr (Some m)"
    and "memory_component.status (fst (snd (build_memory (Inr create) (b, w))))
           = ''Error processing message: '' @ exc_text e"
    by blast+
next
  let ?w1 = "w\<lparr>trace := trace w @
                   [FunCall ''create_eliza_memory'' []
                      [(''session_id'', AStr (memory_component.session_id b)),
                       (''user_id'', AStr (memory_component.user_id b)),
                       (''memory_extraction'', ABool (extract_memories b))]],
              engine_state := s'\<rparr>"
  assume nex: "\<not> instance_truthy (existing_memory b)"
    and made: "create (memory_component.session_id b) (memory_component.user_id b)
                 (extract_memories b) (engine_state w) = (Inr m, s')"
    and g: "is_truthy m" "message b = Some msg" "msg \<noteq> []"
    and r: "fst (process_try m msg (b\<lparr>priv_memory_instance := Some m\<rparr>, ?w1)) = Inl e
          \<or> (mem_save_context m = Some sc
             \<and> fst (sc (process_inputs b msg) [(''output'', PStr [])] s') = Inl e)"
  have body: "fst (process_try m msg (b\<lparr>priv_memory_instance := Some m\<rparr>, ?w1)) = Inl e"
    using r
  proof
    assume "fst (process_try m msg (b\<lparr>priv_memory_instance := Some m\<rparr>, ?w1)) = Inl e"
    then show ?thesis .
  next
    assume "mem_save_context m = Some sc
             \<and> fst (sc (process_inputs b msg) [(''output'', PStr [])] s') = Inl e"
    then show ?thesis
      by (intro save_context_raises [of m sc]) (simp_all add: process_inputs_def)
  qed
  from build_memory_process_raises_created [of b create w m s' msg e, OF nex made g body]
  show "fst (build_memory (Inr create) (b, w)) = Inr (Some m)"
    and "memory_component.status (fst (snd (build_memory (Inr create) (b, w))))
           = ''Error processing message: '' @ exc_text e"
    by blast+
qed

theorem C3_exceptions_caught_witness:
  "fst (search_memories scenario_runtime (search_node (Some down_engine) (Some ''tea''), fresh_world)) = Inr []
   \<and> search_component.status (fst (snd (search_memories scenario_runtime
        (search_node (Some down_engine) (Some ''tea''), fresh_world))))
       = ''Error searching memories: engine down''
   \<and> fst (store_memory scenario_runtime (store_node (Some down_engine) (Some ''likes tea''), fresh_world))
       = Inr (Data [])
   \<and> priv_storage_status (fst (snd (store_memory scenario_runtime
        (store_node (Some down_engine) (Some ''likes tea''), fresh_world))))
       = ''Error storing memory: engine down''
   \<and> fst (build_memory (Inl (PyExc ''No module'')) (memory_node None (Some ''hello''), fresh_world)) = Inr None
   \<and> memory_component.status (fst (snd (build_memory (Inl (PyExc ''No module''))
        (memory_node None (Some ''hello''), fresh_world))))
       = ''Error building memory: No module''
   \<and> fst (build_memory (Inr failing_create) (memory_node None (Some ''hello''), fresh_world)) = Inr None
   \<and> memory_component.status (fst (snd (build_memory (Inr failing_create)
        (memory_node None (Some ''hello''), fresh_world))))
       = ''Error building memory: no database''
   \<and> fst (build_memory (Inr scenario_create) (memory_node (Some down_engine) (Some ''hello''), fresh_world))
       = Inr (Some down_engine)
   \<and> memory_component.status (fst (snd (build_memory (Inr scenario_create)
        (memory_node (Some down_engine) (Some ''hello''), fresh_world))))
       = ''Error processing message: engine down''
   \<and> fst (build_memory (Inr down_create) (memory_node None (Some ''hello''), fresh_world))
       = Inr (Some down_engine)
   \<and> memory_component.status (fst (snd (build_memory (Inr down_create)
        (memory_node None (Some ''hello''), fresh_world))))
       = ''Error processing message: engine down''"
proof -
  let ?c = "search_node (Some down_engine) (Some ''tea'')"
  let ?k = "store_node (Some down_engine) (Some ''likes tea'')"
  let ?b = "memory_node (Some down_engine) (Some ''hello'')"
  let ?n = "memory_node None (Some ''hello'') :: (nat, bool) memory_component"
  let ?f = "\<lambda>(q :: string) (lim :: int) (mts :: string list) (n :: nat).
              (Inl (PyExc ''engine down'') :: pyexc + (bool memory \<times> bool pyval) pyiter, Suc n)"
  let ?fa = "\<lambda>(cont :: string) (mt :: string) (md :: bool pyval) (tgs :: string list) (n :: nat).
              (Inl (PyExc ''engine down'') :: pyexc + bool pyval, Suc n)"
  let ?sc = "\<lambda>(inputs :: bool pydict) (outputs :: bool pydict) (n :: nat).
              (Inl (PyExc ''engine down'') :: pyexc + unit, Suc n)"
  have search_guards: "search_component.memory_instance ?c = Some down_engine \<and> is_truthy down_engine
      \<and> search_query ?c = Some ''tea'' \<and> ''tea'' \<noteq> []"
    by (simp add: search_node_def down_engine_def full_engine_def)
  have search_body: "fst (search_try scenario_runtime down_engine ''tea'' (?c, fresh_world))
      = Inl (PyExc ''engine down'')"
    by code_simp
  have search_call: "semantic_search ?c \<and> mem_search_memories_semantic down_engine = Some ?f
      \<and> fst (?f ''tea'' (limit ?c) (parse_list (memory_types ?c)) (engine_state fresh_world))
          = Inl (PyExc ''engine down'')"
    by (simp add: search_node_def down_engine_def)
  have store_guards: "store_component.memory_instance ?k = Some down_engine \<and> is_truthy down_engine
      \<and> content ?k = Some ''likes tea'' \<and> ''likes tea'' \<noteq> []"
    by (simp add: store_node_def down_engine_def full_engine_def)
  have store_body: "fst (store_try scenario_runtime down_engine ''likes tea'' (?k, fresh_world))
      = Inl (PyExc ''engine down'')"
    by code_simp
  have store_call: "mem_add_memory down_engine = Some ?fa
      \<and> fst (?fa ''likes tea'' (memory_type ?k) (dict_val (store_component.metadata ?k))
               (parse_list (store_component.tags ?k)) (engine_state fresh_world))
          = Inl (PyExc ''engine down'')"
    by (simp add: down_engine_def)
  have no_existing: "\<not> instance_truthy (existing_memory ?n)"
    by (simp add: instance_truthy_def memory_node_def)
  have create_fails: "fst (failing_create (memory_component.session_id ?n) (memory_component.user_id ?n)
                             (extract_memories ?n) (engine_state fresh_world)) = Inl (PyExc ''no database'')"
    by (simp add: failing_create_def)
  have build_guards: "existing_memory ?b = Some down_engine \<and> is_truthy down_engine
      \<and> message ?b = Some ''hello'' \<and> ''hello'' \<noteq> []"
    by (simp add: memory_node_def down_engine_def full_engine_def)
  have save_fails: "mem_save_context down_engine = Some ?sc
      \<and> fst (?sc (process_inputs ?b ''hello'') [(''output'', PStr [])] (engine_state fresh_world))
          = Inl (PyExc ''engine down'')"
    by (simp add: down_engine_def)
  note down =
    C3_exceptions_caught [of ?c down_engine "''tea''" scenario_runtime fresh_world "PyExc ''engine down''"
      ?f _ ?k "''likes tea''" ?fa _ ?b scenario_create "''hello''" ?sc]
  note made =
    C3_exceptions_caught [of ?c down_engine "''tea''" scenario_runtime fresh_world "PyExc ''no database''"
      _ _ ?k "''likes tea''" _ _ ?n failing_create]
  note import =
    C3_exceptions_caught [of ?c down_engine "''tea''" scenario_runtime fresh_world "PyExc ''No module''"
      _ _ ?k "''likes tea''" _ _ ?n]
  have searched:
    "fst (search_memories scenario_runtime (?c, fresh_world)) = Inr []
     \<and> search_component.status (fst (snd (search_memories scenario_runtime (?c, fresh_world))))
         = ''Error searching memories: engine down''"
    using down search_guards search_body search_call by simp
  have stored:
    "fst (store_memory scenario_runtime (?k, fresh_world)) = Inr (Data [])
     \<and> priv_storage_status (fst (snd (store_memory scenario_runtime (?k, fresh_world))))
         = ''Error storing memory: engine down''"
    using down store_guards store_body store_call by simp
  have processed:
    "fst (build_memory (Inr scenario_create) (?b, fresh_world)) = Inr (Some down_engine)
     \<and> memory_component.status (fst (snd (build_memory (Inr scenario_create) (?b, fresh_world))))
         = ''Error processing message: engine down''"
    using down build_guards save_fails by simp
  have created:
    "fst (build_memory (Inr failing_create) (?n, fresh_world)) = Inr None
     \<and> memory_component.status (fst (snd (build_memory (Inr failing_create) (?n, fresh_world))))
         = ''Error building memory: no database''"
    using made no_existing create_fails by simp
  have imported:
    "fst (build_memory (Inl (PyExc ''No module'')) (?n, fresh_world)) = Inr None
     \<and> memory_component.status (fst (snd (build_memory (Inl (PyExc ''No module'')) (?n, fresh_world))))
         = ''Error building memory: No module''"
    using import by simp
  have create_works: "down_create (memory_component.session_id ?n) (memory_component.user_id ?n)
                        (extract_memories ?n) (engine_state fresh_world) = (Inr down_engine, Suc 0)"
    by (simp add: down_create_def fresh_world_def)
  have new_guards: "is_truthy down_engine \<and> message ?n = Some ''hello'' \<and> ''hello'' \<noteq> []"
    by (simp add: memory_node_def down_engine_def full_engine_def)
  have new_save_fails: "mem_save_context down_engine = Some ?sc
      \<and> fst (?sc (process_inputs ?n ''hello'') [(''output'', PStr [])] (Suc 0))
          = Inl (PyExc ''engine down'')"
    by (simp add: down_engine_def)
  note fresh =
    C3_exceptions_caught [of ?c down_engine "''tea''" scenario_runtime fresh_world "PyExc ''engine down''"
      ?f _ ?k "''likes tea''" ?fa _ ?n down_create "''hello''" ?sc "Suc 0"]
  have processed_new:
    "fst (build_memory (Inr down_create) (?n, fresh_world)) = Inr (Some down_engine)
     \<and> memory_component.status (fst (snd (build_memory (Inr down_create) (?n, fresh_world))))
         = ''Error processing message: engine down''"
    using fresh no_existing create_works new_guards new_save_fails by simp
  from searched stored imported created processed processed_new show ?thesis by blast
qed

end
